theory Spec2Isabelle
  imports Main "HOL-Library.Sublist"
begin

section \<open>The ANSI sanitizer\<close>

text \<open>
  Source: the module constant ansi_regex (line 21 of bin/server.py), the compiled pattern
  ESC (?: [@-Z\\-_] | \[ [0-?]* [ -/]* [@-~] ), and strip_ansi_codes (lines 27 to 29), which
  returns ansi_regex.sub("", text) for a non-empty text and the empty string otherwise.

  Text is a list of characters. A match is the character ESC followed either by one
  character with code 0x40..0x5A or 0x5C..0x5F, or by an opening bracket, a run of
  parameter characters (0x30..0x3F), a run of intermediate characters (0x20..0x2F) and one
  final character (0x40..0x7E). The three classes of the second alternative are pairwise
  disjoint, so taking both runs greedily is the only way the pattern can match: giving
  back a character of a run never lets the next part of the pattern succeed. The
  substitution removes the matches found from left to right and resumes scanning behind
  each match; a character ESC that starts no match is kept.

  \<open>match_escape cs\<close> is the text behind the match when the characters \<open>cs\<close> that follow an
  ESC complete a match, and \<open>None\<close> otherwise.
\<close>

definition ESC :: char where "ESC = CHR 0x1B"

definition single_escape_char :: "char \<Rightarrow> bool" where
  "single_escape_char c =
     ((0x40 \<le> (of_char c :: nat) \<and> (of_char c :: nat) \<le> 0x5A) \<or>
      (0x5C \<le> (of_char c :: nat) \<and> (of_char c :: nat) \<le> 0x5F))"

definition param_byte :: "char \<Rightarrow> bool" where
  "param_byte c = (0x30 \<le> (of_char c :: nat) \<and> (of_char c :: nat) \<le> 0x3F)"

definition intermediate_byte :: "char \<Rightarrow> bool" where
  "intermediate_byte c = (0x20 \<le> (of_char c :: nat) \<and> (of_char c :: nat) \<le> 0x2F)"

definition final_byte :: "char \<Rightarrow> bool" where
  "final_byte c = (0x40 \<le> (of_char c :: nat) \<and> (of_char c :: nat) \<le> 0x7E)"

definition csi_tail :: "string \<Rightarrow> string option" where
  "csi_tail cs =
     (case dropWhile intermediate_byte (dropWhile param_byte cs) of
        [] \<Rightarrow> None
      | c # rest \<Rightarrow> if final_byte c then Some rest else None)"

fun match_escape :: "string \<Rightarrow> string option" where
  "match_escape [] = None"
| "match_escape (c # cs) =
     (if single_escape_char c then Some cs
      else if c = CHR ''['' then csi_tail cs
      else None)"

lemma csi_tail_shorter: "csi_tail cs = Some rest \<Longrightarrow> length rest < length cs"
proof -
  assume h: "csi_tail cs = Some rest"
  let ?d = "dropWhile intermediate_byte (dropWhile param_byte cs)"
  have "length ?d \<le> length cs"
    by (meson length_dropWhile_le le_trans)
  moreover from h obtain c where "?d = c # rest"
    by (auto simp: csi_tail_def split: list.splits if_splits)
  ultimately show ?thesis by simp
qed

lemma match_escape_shorter: "match_escape cs = Some rest \<Longrightarrow> length rest < length cs"
  by (cases cs) (auto split: if_splits dest: csi_tail_shorter)

function strip_ansi_codes :: "string \<Rightarrow> string" where
  "strip_ansi_codes [] = []"
| "strip_ansi_codes (c # cs) =
     (if c = ESC then
        (case match_escape cs of
           Some rest \<Rightarrow> strip_ansi_codes rest
         | None \<Rightarrow> c # strip_ansi_codes cs)
      else c # strip_ansi_codes cs)"
  by pat_completeness auto
termination
  by (relation "measure length") (auto dest: match_escape_shorter)

text \<open>
  Two notions for the statements about the sanitizer: \<open>has_escape s\<close> holds when the
  pattern matches somewhere in \<open>s\<close>, and \<open>every_esc_matched s\<close> when every ESC of \<open>s\<close> begins
  a match.
\<close>

fun has_escape :: "string \<Rightarrow> bool" where
  "has_escape [] = False"
| "has_escape (c # cs) = ((c = ESC \<and> match_escape cs \<noteq> None) \<or> has_escape cs)"

fun every_esc_matched :: "string \<Rightarrow> bool" where
  "every_esc_matched [] = True"
| "every_esc_matched (c # cs) = ((c = ESC \<longrightarrow> match_escape cs \<noteq> None) \<and> every_esc_matched cs)"

section \<open>JSON values and joining lines\<close>

text \<open>
  The value json.loads returns, and the dictionaries the handlers send back. A Python
  dictionary is an association list read with \<open>map_of\<close>. str.join raises TypeError at the
  first item that is not a string; \<open>py_join\<close> returns the message of that error on the left.
\<close>

datatype json =
    JNull
  | JBool bool
  | JInt int
  | JFloat string
  | JStr string
  | JArr "json list"
  | JObj "(string \<times> json) list"

fun type_name :: "json \<Rightarrow> string" where
  "type_name JNull = ''NoneType''"
| "type_name (JBool b) = ''bool''"
| "type_name (JInt i) = ''int''"
| "type_name (JFloat f) = ''float''"
| "type_name (JStr s) = ''str''"
| "type_name (JArr xs) = ''list''"
| "type_name (JObj kv) = ''dict''"

definition digit_char :: "nat \<Rightarrow> char" where
  "digit_char d = char_of (of_char CHR ''0'' + d)"

function show_nat :: "nat \<Rightarrow> string" where
  "show_nat n = (if n < 10 then [digit_char n] else show_nat (n div 10) @ [digit_char (n mod 10)])"
  by pat_completeness auto
termination
  by (relation "measure id") auto

fun join_from :: "nat \<Rightarrow> string \<Rightarrow> json list \<Rightarrow> string + string" where
  "join_from i sep [] = Inr []"
| "join_from i sep (JStr s # xs) =
     (case join_from (Suc i) sep xs of
        Inl e \<Rightarrow> Inl e
      | Inr rest \<Rightarrow> Inr (if xs = [] then s else s @ sep @ rest))"
| "join_from i sep (x # xs) =
     Inl (''sequence item '' @ show_nat i @ '': expected str instance, '' @ type_name x @ '' found'')"

definition py_join :: "string \<Rightarrow> json list \<Rightarrow> string + string" where
  "py_join sep xs = join_from 0 sep xs"

text \<open>
  str.strip on characters with codes below 256 (the white space characters there have the
  codes 9 to 13, 28 to 32, 0x85 and 0xA0), and format_code (lines 32 to 34), of which the
  model keeps the text handed to the highlighter.
\<close>

definition py_isspace :: "char \<Rightarrow> bool" where
  "py_isspace c =
     ((9 \<le> (of_char c :: nat) \<and> (of_char c :: nat) \<le> 13) \<or>
      (28 \<le> (of_char c :: nat) \<and> (of_char c :: nat) \<le> 32) \<or>
      (of_char c :: nat) = 0x85 \<or> (of_char c :: nat) = 0xA0)"

definition py_strip :: "string \<Rightarrow> string" where
  "py_strip s = rev (dropWhile py_isspace (rev (dropWhile py_isspace s)))"

definition format_code :: "json list \<Rightarrow> string + string" where
  "format_code code =
     (case py_join ''\<newline>   '' code of
        Inl e \<Rightarrow> Inl e
      | Inr joined \<Rightarrow> Inr (py_strip (''>> '' @ joined)))"

section \<open>Request validation\<close>

text \<open>
  validate_code_exc_data (lines 37 to 45). Its argument here is the outcome of
  json.loads on the decoded request body: \<open>Inl e\<close> when the parser raised an error whose
  message is \<open>e\<close>, \<open>Inr v\<close> when it returned the value \<open>v\<close>. Calling get on a value that is
  not a dictionary raises AttributeError, which the handler of the function catches like
  every other exception. A missing code field is replaced by the empty list, and only the
  outermost type of the field is tested.
\<close>

definition dict_get :: "(string \<times> json) list \<Rightarrow> string \<Rightarrow> json \<Rightarrow> json" where
  "dict_get kv k dflt = (case map_of kv k of None \<Rightarrow> dflt | Some v \<Rightarrow> v)"

definition parse_failure :: "string \<Rightarrow> json list \<times> string option" where
  "parse_failure e = ([], Some (''Failed to parse request: '' @ e))"

definition validate_code_exc_data :: "string + json \<Rightarrow> json list \<times> string option" where
  "validate_code_exc_data loaded =
     (case loaded of
        Inl e \<Rightarrow> parse_failure e
      | Inr raw_data \<Rightarrow>
          (case raw_data of
             JObj kv \<Rightarrow>
               (case dict_get kv ''code'' (JArr []) of
                  JArr code \<Rightarrow> (code, None)
                | _ \<Rightarrow> parse_failure (CHR 0x27 # ''code'' @ CHR 0x27 # '' must be a list of strings''))
           | _ \<Rightarrow>
               parse_failure
                 (CHR 0x27 # type_name raw_data @ CHR 0x27 # '' object has no attribute ''
                    @ CHR 0x27 # ''get'' @ [CHR 0x27])))"

section \<open>The server state and its effects\<close>

text \<open>
  The execution engine (IPython) is a parameter: \<open>run_cell E sh code_str\<close> gives the
  session after the call together with either the rendering of an exception that escaped
  from the call (left) or the captured streams and the two error fields of the execution
  result (right). An exception value carries its message and the rendering that
  traceback.format_exception gives. textwrap.dedent, the clock, the regular-expression
  class of word characters, the value of the environment variable PYREPL_PORT, the
  conversion int, the binding of the listening socket and the failures of the file system
  are parameters as well: \<open>open_append E path\<close> and \<open>makedirs E path\<close> are \<open>None\<close> when the
  call succeeds and the message of the raised error otherwise. \<open>markup_error E text\<close> is the
  error that rich raises when it parses \<open>text\<close> as console markup (a closing tag that
  matches no open tag), and \<open>None\<close> when the text renders.

  The module globals ipshell, is_executing and log_file_path are fields of the state,
  next to the contents of the files, the list of worker threads that were started and
  have not run yet, and the trace of observable effects in the order in which they occur.
  Every assignment to is_executing is made while execution_lock is held and is recorded in
  the trace.
\<close>

record exn =
  exn_str :: string
  exn_traceback :: string

record cell =
  stdout :: string
  stderr :: string
  error_before_exec :: "exn option"
  error_in_exec :: "exn option"

datatype event =
    Sent nat "json option"
  | Print string
  | Print_code string
  | Stdout string
  | Busy_write bool
  | Run_cell string
  | Shell_reset
  | File_append string string
  | Thread_start "json list" string
  | Unhandled string

datatype bind_result = Bound | Bind_OSError string | Bind_error string

record 's env =
  run_cell :: "'s \<Rightarrow> string \<Rightarrow> 's \<times> (string + cell)"
  shell_reset :: "'s \<Rightarrow> 's"
  new_shell :: "'s"
  dedent :: "string \<Rightarrow> string"
  markup_error :: "string \<Rightarrow> exn option"
  open_append :: "string \<Rightarrow> string option"
  makedirs :: "string \<Rightarrow> string option"
  word_char :: "char \<Rightarrow> bool"
  strftime_now :: string
  str_now :: string
  getenv_port :: "string option"
  py_int :: "string \<Rightarrow> string + int"
  httpd_bind :: "int \<Rightarrow> bind_result"

record 's server =
  ipshell :: "'s option"
  is_executing :: bool
  log_file_path :: "string option"
  files :: "string \<Rightarrow> string option"
  events :: "event list"
  threads :: "(json list \<times> string) list"

definition emit :: "event \<Rightarrow> 's server \<Rightarrow> 's server" where
  "emit e st = st\<lparr>events := events st @ [e]\<rparr>"

definition set_busy :: "bool \<Rightarrow> 's server \<Rightarrow> 's server" where
  "set_busy b st = emit (Busy_write b) (st\<lparr>is_executing := b\<rparr>)"

definition send_json_response :: "nat \<Rightarrow> json \<Rightarrow> 's server \<Rightarrow> 's server" where
  "send_json_response status resp_data st = emit (Sent status (Some resp_data)) st"

definition send_empty :: "nat \<Rightarrow> 's server \<Rightarrow> 's server" where
  "send_empty status st = emit (Sent status None) st"

definition append_file :: "string \<Rightarrow> string \<Rightarrow> 's server \<Rightarrow> 's server" where
  "append_file path txt st =
     emit (File_append path txt)
       (st\<lparr>files := (files st)(path \<mapsto> (case files st path of None \<Rightarrow> [] | Some old \<Rightarrow> old) @ txt)\<rparr>)"

text \<open>
  rich.print parses every string argument on its own as console markup before anything is
  written, so a call whose arguments contain text from outside can raise; \<open>rich_print\<close> is
  such a call. Prints of constant texts and of the highlighted code block, writes to
  sys.stdout and to the response stream are taken to succeed.
\<close>

definition truthy :: "string option \<Rightarrow> bool" where
  "truthy s = (case s of None \<Rightarrow> False | Some t \<Rightarrow> t \<noteq> [])"

definition or_empty :: "string option \<Rightarrow> string" where
  "or_empty s = (case s of None \<Rightarrow> [] | Some t \<Rightarrow> t)"

fun first_markup_error :: "'s env \<Rightarrow> string list \<Rightarrow> exn option" where
  "first_markup_error E [] = None"
| "first_markup_error E (x # xs) =
     (case markup_error E x of
        Some e \<Rightarrow> Some e
      | None \<Rightarrow> first_markup_error E xs)"

definition rich_print :: "'s env \<Rightarrow> string list \<Rightarrow> 's server \<Rightarrow> exn + 's server" where
  "rich_print E objects st =
     (case first_markup_error E objects of
        Some e \<Rightarrow> Inl e
      | None \<Rightarrow> Inr (emit (Print (concat objects)) st))"

section \<open>The transcript logger\<close>

text \<open>
  write_to_log (lines 48 to 78). It returns at once when no log file path is set; every
  exception inside its try block (joining the code lines, opening the file) is caught and
  reported on the console. The report in line 78 is itself a markup print of the path and
  the message; when it raises, the exception leaves write_to_log, which is the second
  component of the result. \<open>open_append\<close> stands for the whole with block of line 67.
\<close>

definition get_or_empty :: "(string \<times> string) list \<Rightarrow> string \<Rightarrow> string" where
  "get_or_empty result k = (case map_of result k of None \<Rightarrow> [] | Some v \<Rightarrow> v)"

definition log_record :: "string \<Rightarrow> (string \<times> string) list \<Rightarrow> string" where
  "log_record code_str result =
     (let output_str = strip_ansi_codes (get_or_empty result ''output'');
          error_str = strip_ansi_codes (get_or_empty result ''error'');
          log_content = (if output_str \<noteq> [] then output_str else []);
          log_content =
            (if error_str \<noteq> []
             then (if log_content \<noteq> [] then log_content @ ''\<newline>'' else log_content) @ error_str
             else log_content)
      in ''```python\<newline>'' @ code_str @ ''\<newline>```\<newline>\<newline><output>\<newline>''
           @ py_strip log_content @ ''\<newline></output>\<newline>\<newline>'')"

definition report_log_error :: "'s env \<Rightarrow> string \<Rightarrow> string \<Rightarrow> 's server \<Rightarrow> 's server \<times> exn option" where
  "report_log_error E path e st =
     (case rich_print E [''[red]Error writing to log file '' @ path @ '': '' @ e] st of
        Inl x \<Rightarrow> (st, Some x)
      | Inr st' \<Rightarrow> (st', None))"

definition write_to_log ::
  "'s env \<Rightarrow> json list \<Rightarrow> (string \<times> string) list \<Rightarrow> 's server \<Rightarrow> 's server \<times> exn option" where
  "write_to_log E code_lines result st =
     (case log_file_path st of
        None \<Rightarrow> (st, None)
      | Some path \<Rightarrow>
          if path = [] then (st, None)
          else
            (case py_join ''\<newline>'' code_lines of
               Inl e \<Rightarrow> report_log_error E path e st
             | Inr code_str \<Rightarrow>
                 (case open_append E path of
                    Some e \<Rightarrow> report_log_error E path e st
                  | None \<Rightarrow> (append_file path (log_record code_str result) st, None))))"

section \<open>The worker\<close>

text \<open>
  The body of the function that runs in the worker thread (lines 81 to 135).
  \<open>classify_outcome\<close> is the computation of output and error_output in lines 99 to 114.
  The thread holds a reference to the shell object that ipshell named when the thread was
  created; the global is never rebound after start-up, so the model reads the session from
  the state, and a missing shell behaves as the attribute error Python would raise inside
  the try block. The console echo of the submitted code in line 87 comes before the try
  block: an exception raised there ends the thread without running the finally clause.

  \<open>try_block\<close> is the body of the try statement (lines 94 to 122); it yields the state, the
  value of the variable output (\<open>None\<close> until line 99 is reached) and either the rendering
  of the exception that left the block or the result dictionary. The echo of the error
  text in line 120 is a markup print of captured text and can raise. \<open>except_block\<close> is the
  handler (lines 124 to 130): its print in line 129 can raise again, and then the result
  keeps its initial value, the empty dictionary, and the exception stays pending.
  \<open>release_and_log\<close> is the finally clause: the flag is cleared, the logger is called, and a
  pending exception ends the thread. The worker is one atomic step of the model.
\<close>

definition classify_outcome :: "cell \<Rightarrow> string \<times> string" where
  "classify_outcome c =
     (let output = stdout c;
          error_output = stderr c;
          error_output =
            (case error_before_exec c of
               Some e \<Rightarrow> error_output @ ''Error before execution: '' @ exn_str e
             | None \<Rightarrow>
                 (case error_in_exec c of
                    Some e \<Rightarrow>
                      if output = [] \<and> error_output = [] then exn_traceback e else error_output
                  | None \<Rightarrow> error_output))
      in (output, error_output))"

definition none_shell_traceback :: string where
  "none_shell_traceback =
     ''AttributeError: '' @ CHR 0x27 # ''NoneType'' @ CHR 0x27 # '' object has no attribute ''
       @ CHR 0x27 # ''run_cell'' @ [CHR 0x27]"

definition call_run_cell :: "'s env \<Rightarrow> string \<Rightarrow> 's server \<Rightarrow> 's server \<times> (string + cell)" where
  "call_run_cell E code_str st =
     (case ipshell st of
        None \<Rightarrow> (st, Inl none_shell_traceback)
      | Some sh \<Rightarrow>
          (case run_cell E sh code_str of
             (sh', r) \<Rightarrow> (emit (Run_cell code_str) (st\<lparr>ipshell := Some sh'\<rparr>), r)))"

definition try_block ::
  "'s env \<Rightarrow> string \<Rightarrow> 's server
     \<Rightarrow> 's server \<times> string option \<times> (string + (string \<times> string) list)" where
  "try_block E code_str st =
     (case call_run_cell E code_str st of
        (st2, Inl tb) \<Rightarrow> (st2, None, Inl tb)
      | (st2, Inr c) \<Rightarrow>
          (case classify_outcome c of
             (output, error_output) \<Rightarrow>
               (let st3 = (if output \<noteq> [] then emit (Stdout output) st2 else st2);
                    result = [(''output'', output), (''error'', error_output)]
                in if error_output \<noteq> []
                   then (case rich_print E [''[red]'', error_output] st3 of
                           Inl x \<Rightarrow> (st3, Some output, Inl (exn_traceback x))
                         | Inr st4 \<Rightarrow> (st4, Some output, Inr result))
                   else (st3, Some output, Inr result))))"

definition except_block ::
  "'s env \<Rightarrow> string option \<Rightarrow> string \<Rightarrow> 's server
     \<Rightarrow> 's server \<times> (string \<times> string) list \<times> string option" where
  "except_block E output tb st =
     (let st1 = (if or_empty output \<noteq> [] then emit (Stdout (or_empty output)) st else st)
      in case rich_print E [''[red]Error during background execution:'', tb] st1 of
           Inl x \<Rightarrow> (st1, [], Some (exn_traceback x))
         | Inr st2 \<Rightarrow> (st2, [(''output'', or_empty output), (''error'', tb)], None))"

definition release_and_log ::
  "'s env \<Rightarrow> json list \<Rightarrow> (string \<times> string) list \<Rightarrow> string option \<Rightarrow> 's server \<Rightarrow> 's server" where
  "release_and_log E code_lines result pending st =
     (case write_to_log E code_lines result (set_busy False st) of
        (st', Some x) \<Rightarrow> emit (Unhandled (exn_traceback x)) st'
      | (st', None) \<Rightarrow>
          (case pending of
             Some tb \<Rightarrow> emit (Unhandled tb) st'
           | None \<Rightarrow> st'))"

definition run_code_in_background ::
  "'s env \<Rightarrow> json list \<Rightarrow> string \<Rightarrow> 's server \<Rightarrow> 's server" where
  "run_code_in_background E code_lines code_str st =
     (case format_code code_lines of
        Inl e \<Rightarrow> emit (Unhandled (''TypeError: '' @ e)) st
      | Inr cblk \<Rightarrow>
          (case try_block E code_str (emit (Print_code cblk) st) of
             (st2, output, Inr result) \<Rightarrow> release_and_log E code_lines result None st2
           | (st2, output, Inl tb) \<Rightarrow>
               (case except_block E output tb st2 of
                  (st3, result, pending) \<Rightarrow> release_and_log E code_lines result pending st3)))"

section \<open>The request handlers\<close>

text \<open>
  execute_code (lines 158 to 186), reset_scope (lines 188 to 199), do_GET and do_POST
  (lines 139 to 156). The server class is the single-threaded HTTPServer, so handlers run
  one after the other and each is one atomic step; in particular the test and the
  assignment of is_executing inside the lock are one step. Joining the code lines in line
  182 happens after the response was sent and outside any try block, so a TypeError there
  leaves the handler as an unhandled exception before the thread is created.
\<close>

definition thread_start :: "json list \<Rightarrow> string \<Rightarrow> 's server \<Rightarrow> 's server" where
  "thread_start code code_str st =
     emit (Thread_start code code_str) (st\<lparr>threads := threads st @ [(code, code_str)]\<rparr>)"

definition not_initialized :: json where
  "not_initialized = JObj [(''error'', JStr ''IPython shell not initialized'')]"

definition busy_body :: json where
  "busy_body = JObj [(''error'', JStr ''Server is busy executing previous code'')]"

definition accepted_body :: json where
  "accepted_body = JObj [(''status'', JStr ''Execution request accepted'')]"

definition execute_code :: "'s env \<Rightarrow> string + json \<Rightarrow> 's server \<Rightarrow> 's server" where
  "execute_code E loaded st =
     (case ipshell st of
        None \<Rightarrow> send_json_response 500 not_initialized st
      | Some sh \<Rightarrow>
          (case validate_code_exc_data loaded of
             (code, Some error) \<Rightarrow> send_json_response 400 (JObj [(''error'', JStr error)]) st
           | (code, None) \<Rightarrow>
               if is_executing st then send_json_response 409 busy_body st
               else
                 (let st1 = set_busy True st;
                      st2 = send_json_response 200 accepted_body st1
                  in (case py_join ''\<newline>'' code of
                        Inl e \<Rightarrow> emit (Unhandled (''TypeError: '' @ e)) st2
                      | Inr joined \<Rightarrow> thread_start code (dedent E joined) st2))))"

definition reset_msg :: string where
  "reset_msg = ''Cleared REPL scope (IPython reset)''"

definition reset_scope :: "'s env \<Rightarrow> 's server \<Rightarrow> 's server" where
  "reset_scope E st =
     (case ipshell st of
        Some sh \<Rightarrow>
          (let st1 = emit Shell_reset (st\<lparr>ipshell := Some (shell_reset E sh)\<rparr>);
               st2 = emit (Print (''[bold yellow]'' @ reset_msg @ ''\<newline>'')) st1;
               st3 = set_busy False st2;
               st4 = send_json_response 200 (JObj [(''status'', JStr ''ok'')]) st3
           in case write_to_log E [JStr ''# Reset Command Received''] [(''output'', reset_msg)] st4 of
                (st5, Some x) \<Rightarrow> emit (Unhandled (exn_traceback x)) st5
              | (st5, None) \<Rightarrow> st5)
      | None \<Rightarrow> send_json_response 500 not_initialized st)"

definition do_GET :: "string \<Rightarrow> 's server \<Rightarrow> 's server" where
  "do_GET path st =
     (if path = ''/health'' then send_json_response 200 (JObj [(''status'', JStr ''alive'')]) st
      else send_empty 404 st)"

definition do_POST :: "'s env \<Rightarrow> string \<Rightarrow> string + json \<Rightarrow> 's server \<Rightarrow> 's server" where
  "do_POST E path loaded st =
     (if path = ''/execute'' then execute_code E loaded st
      else if path = ''/reset'' then reset_scope E st
      else send_empty 404 st)"

text \<open>
  The behaviour of the running server: a request is handled, or a started worker thread
  runs to completion.
\<close>

datatype request = GET string | POST string "string + json"

datatype action = Request request | Thread_runs nat

definition step :: "'s env \<Rightarrow> action \<Rightarrow> 's server \<Rightarrow> 's server" where
  "step E a st =
     (case a of
        Request (GET path) \<Rightarrow> do_GET path st
      | Request (POST path loaded) \<Rightarrow> do_POST E path loaded st
      | Thread_runs i \<Rightarrow>
          if i < length (threads st)
          then (case threads st ! i of
                  (code_lines, code_str) \<Rightarrow>
                    run_code_in_background E code_lines code_str
                      (st\<lparr>threads := take i (threads st) @ drop (Suc i) (threads st)\<rparr>))
          else st)"

fun run :: "'s env \<Rightarrow> action list \<Rightarrow> 's server \<Rightarrow> 's server" where
  "run E [] st = st"
| "run E (a # as) st = run E as (step E a st)"

section \<open>Start-up\<close>

text \<open>
  setup_logging (lines 216 to 243), get_address (lines 211 to 213) and run_server (lines
  246 to 273) up to serve_forever. os.path.join is the POSIX one. The substitution that
  makes the log name safe replaces every maximal run of characters that are neither word
  characters nor hyphens by one underscore. The announcement of the log file in line 233
  and the report in line 242 are markup prints of the path and can raise: the first inside
  the try block, the second inside its handler, from where the exception leaves
  setup_logging and, line 250 being outside the try block of run_server, ends the process.
  get_address converts the port with int before anything else happens, and an exception of
  that conversion ends the process as well. The construction of the shell is taken to
  succeed; an exception of one of the two start-up cells is reported with its rendering
  and ends the process, as does a failure to bind the socket. The result of run_server
  says whether the process reached serve_forever.
\<close>

definition os_path_join :: "string \<Rightarrow> string \<Rightarrow> string" where
  "os_path_join a b =
     (if b \<noteq> [] \<and> hd b = CHR ''/'' then b
      else if a = [] \<or> last a = CHR ''/'' then a @ b
      else a @ ''/'' @ b)"

definition name_char :: "'s env \<Rightarrow> char \<Rightarrow> bool" where
  "name_char E c = (word_char E c \<or> c = CHR ''-'')"

function safe_name :: "(char \<Rightarrow> bool) \<Rightarrow> string \<Rightarrow> string" where
  "safe_name keep [] = []"
| "safe_name keep (c # cs) =
     (if keep c then c # safe_name keep cs
      else CHR ''_'' # safe_name keep (dropWhile (\<lambda>x. \<not> keep x) cs))"
  by pat_completeness auto
termination
  by (relation "measure (\<lambda>(keep, s). length s)") (auto simp: le_imp_less_Suc length_dropWhile_le)

definition log_filename :: "'s env \<Rightarrow> string option \<Rightarrow> string" where
  "log_filename E log_name =
     (let filename = strftime_now E;
          filename = (if truthy log_name
                      then filename @ ''-'' @ safe_name (name_char E) (or_empty log_name)
                      else filename)
      in filename @ ''.md'')"

definition log_header :: "'s env \<Rightarrow> string \<Rightarrow> string option \<Rightarrow> string" where
  "log_header E log_dir log_name =
     ''# PyREPL Session Log: '' @ str_now E @ ''\<newline>''
       @ ''# CWD: '' @ log_dir @ ''\<newline>''
       @ (if truthy log_name then ''# Session Name: '' @ or_empty log_name @ ''\<newline>'' else [])
       @ ''\<newline>''"

definition setup_failed ::
  "'s env \<Rightarrow> string \<Rightarrow> string \<Rightarrow> 's server \<Rightarrow> 's server \<times> (exn + string option)" where
  "setup_failed E log_dir e st =
     (case rich_print E [''[red]Failed to setup logging in '' @ log_dir @ '': '' @ e] st of
        Inl x \<Rightarrow> (st, Inl x)
      | Inr st' \<Rightarrow> (st', Inr None))"

definition setup_logging ::
  "'s env \<Rightarrow> string option \<Rightarrow> string option \<Rightarrow> 's server
     \<Rightarrow> 's server \<times> (exn + string option)" where
  "setup_logging E log_dir log_name st =
     (if \<not> truthy log_dir then (st, Inr None)
      else
        (let dir = or_empty log_dir;
             target_dir = os_path_join dir ''.pyrepl''
         in (case makedirs E target_dir of
               Some e \<Rightarrow> setup_failed E dir e st
             | None \<Rightarrow>
                 (let path = os_path_join target_dir (log_filename E log_name);
                      st1 = st\<lparr>log_file_path := Some path\<rparr>
                  in (case rich_print E [''[blue]Logging enabled. Log file: '' @ path] st1 of
                        Inl x \<Rightarrow> setup_failed E dir (exn_str x) st1
                      | Inr st2 \<Rightarrow>
                          (case open_append E path of
                             Some e \<Rightarrow> setup_failed E dir e st2
                           | None \<Rightarrow>
                               (append_file path (log_header E dir log_name) st2,
                                Inr (Some path))))))))"

definition boot :: "(string \<Rightarrow> string option) \<Rightarrow> 's server" where
  "boot fs =
     \<lparr>ipshell = None, is_executing = False, log_file_path = None,
      files = fs, events = [], threads = []\<rparr>"

datatype 's startup = Serving "'s server" | Exited "'s server"

function show_digits :: "int \<Rightarrow> string" where
  "show_digits n =
     (if n < 10 then [digit_char (nat n)]
      else show_digits (n div 10) @ [digit_char (nat (n mod 10))])"
  by pat_completeness auto
termination
  by (relation "measure nat") auto

definition show_int :: "int \<Rightarrow> string" where
  "show_int i = (if i < 0 then ''-'' @ show_digits (- i) else show_digits i)"

fun starts_with :: "string \<Rightarrow> string \<Rightarrow> bool" where
  "starts_with [] s = True"
| "starts_with (a # as) [] = False"
| "starts_with (a # as) (b # bs) = (a = b \<and> starts_with as bs)"

fun contains :: "string \<Rightarrow> string \<Rightarrow> bool" where
  "contains sub [] = (sub = [])"
| "contains sub (c # cs) = (starts_with sub (c # cs) \<or> contains sub cs)"

definition get_address :: "'s env \<Rightarrow> string + int" where
  "get_address E =
     (case getenv_port E of
        None \<Rightarrow> Inr 5000
      | Some v \<Rightarrow> py_int E v)"

definition exit_after :: "'s env \<Rightarrow> string list \<Rightarrow> 's server \<Rightarrow> 's startup" where
  "exit_after E objects st =
     (case rich_print E objects st of
        Inl x \<Rightarrow> Exited (emit (Unhandled (exn_traceback x)) st)
      | Inr st' \<Rightarrow> Exited st')"

definition start_httpd :: "'s env \<Rightarrow> int \<Rightarrow> 's server \<Rightarrow> 's startup" where
  "start_httpd E port_no st =
     (case httpd_bind E port_no of
        Bound \<Rightarrow> Serving st
      | Bind_OSError e \<Rightarrow>
          (case rich_print E [''[red]Error starting pyrepl: '' @ e] st of
             Inl x \<Rightarrow> Exited (emit (Unhandled (exn_traceback x)) st)
           | Inr st' \<Rightarrow>
               if contains ''Address already in use'' e
               then Exited
                      (emit (Print (''[yellow]Is another pyrepl server running on port ''
                                      @ show_int port_no @ ''?'')) st')
               else Exited st')
      | Bind_error e \<Rightarrow> exit_after E [''[red]Unexpected error: '' @ e] st)"

definition run_server :: "'s env \<Rightarrow> string option \<Rightarrow> string option \<Rightarrow> 's server \<Rightarrow> 's startup" where
  "run_server E log_dir log_name st =
     (case get_address E of
        Inl e \<Rightarrow> Exited (emit (Unhandled (''ValueError: '' @ e)) st)
      | Inr port_no \<Rightarrow>
          (case setup_logging E log_dir log_name st of
             (st1, Inl x) \<Rightarrow> Exited (emit (Unhandled (exn_traceback x)) st1)
           | (st1, Inr path) \<Rightarrow>
               (let st2 = st1\<lparr>log_file_path := path\<rparr>;
                    st3 = st2\<lparr>ipshell := Some (new_shell E)\<rparr>;
                    st4 = emit (Print ''[blue]Initializing IPython & loading default extensions...'') st3
                in (case call_run_cell E ''%load_ext autoreload'' st4 of
                      (st5, Inl tb) \<Rightarrow> exit_after E [''[red]Unexpected error: '' @ tb] st5
                    | (st5, Inr c1) \<Rightarrow>
                        (case call_run_cell E ''%autoreload 2'' st5 of
                           (st6, Inl tb) \<Rightarrow> exit_after E [''[red]Unexpected error: '' @ tb] st6
                         | (st6, Inr c2) \<Rightarrow>
                             start_httpd E port_no
                               (emit (Print (''[bold blue]Server running on http://localhost:''
                                               @ show_int port_no)) st6))))))"

section \<open>A concrete environment\<close>

text \<open>
  A small environment on which the definitions can be evaluated. Its de-indentation
  follows the implementation of textwrap.dedent in CPython 3.11: lines of blanks become
  empty, the margin is the longest common prefix of the leading blanks of the remaining
  non-empty lines, and the margin is removed from every line that starts with it. Its
  engine is a stand-in that records the units it ran as the session, fails on a division by
  zero and otherwise prints the unit. Its markup check rejects every text that contains
  the two characters that open a closing tag, and the rendering of that error quotes the
  text, as the message of rich does.
\<close>

fun split_lines :: "string \<Rightarrow> string list" where
  "split_lines [] = [[]]"
| "split_lines (c # cs) =
     (case split_lines cs of
        [] \<Rightarrow> (if c = CHR ''\<newline>'' then [[], []] else [[c]])
      | l # ls \<Rightarrow> if c = CHR ''\<newline>'' then [] # l # ls else (c # l) # ls)"

fun join_lines :: "string list \<Rightarrow> string" where
  "join_lines [] = []"
| "join_lines [l] = l"
| "join_lines (l # ls) = l @ CHR ''\<newline>'' # join_lines ls"

definition blank_char :: "char \<Rightarrow> bool" where
  "blank_char c = (c = CHR '' '' \<or> c = CHR 0x09)"

definition blank_out :: "string \<Rightarrow> string" where
  "blank_out l = (if list_all blank_char l then [] else l)"

fun common_prefix :: "string \<Rightarrow> string \<Rightarrow> string" where
  "common_prefix (x # xs) (y # ys) = (if x = y then x # common_prefix xs ys else [])"
| "common_prefix xs ys = []"

fun margin_of :: "string option \<Rightarrow> string list \<Rightarrow> string option" where
  "margin_of m [] = m"
| "margin_of None (i # is) = margin_of (Some i) is"
| "margin_of (Some m) (i # is) = margin_of (Some (common_prefix m i)) is"

definition strip_margin :: "string \<Rightarrow> string \<Rightarrow> string" where
  "strip_margin m l = (if take (length m) l = m then drop (length m) l else l)"

definition textwrap_dedent :: "string \<Rightarrow> string" where
  "textwrap_dedent txt =
     (let ls = map blank_out (split_lines txt);
          indents = map (takeWhile blank_char) (filter (\<lambda>l. l \<noteq> []) ls)
      in case margin_of None indents of
           None \<Rightarrow> join_lines ls
         | Some m \<Rightarrow> if m = [] then join_lines ls else join_lines (map (strip_margin m) ls))"

definition ascii_word_char :: "char \<Rightarrow> bool" where
  "ascii_word_char c =
     ((48 \<le> (of_char c :: nat) \<and> (of_char c :: nat) \<le> 57) \<or>
      (65 \<le> (of_char c :: nat) \<and> (of_char c :: nat) \<le> 90) \<or>
      (97 \<le> (of_char c :: nat) \<and> (of_char c :: nat) \<le> 122) \<or>
      c = CHR ''_'')"

definition demo_cell :: "string \<Rightarrow> cell" where
  "demo_cell code_str =
     (if code_str = ''1/0''
      then \<lparr>stdout = [], stderr = [], error_before_exec = None,
            error_in_exec = Some \<lparr>exn_str = ''division by zero'',
              exn_traceback = ''ZeroDivisionError: division by zero''\<rparr>\<rparr>
      else if code_str = ''print(1); 1/0''
      then \<lparr>stdout = ''1\<newline>'', stderr = [], error_before_exec = None,
            error_in_exec = Some \<lparr>exn_str = ''division by zero'',
              exn_traceback = ''ZeroDivisionError: division by zero''\<rparr>\<rparr>
      else if code_str = ''warn(); 1/0''
      then \<lparr>stdout = ''out\<newline>'', stderr = ''see [/usr/lib] for details'',
            error_before_exec = None,
            error_in_exec = Some \<lparr>exn_str = ''division by zero'',
              exn_traceback = ''ZeroDivisionError: division by zero''\<rparr>\<rparr>
      else \<lparr>stdout = code_str, stderr = [], error_before_exec = None, error_in_exec = None\<rparr>)"

definition demo_markup_error :: "string \<Rightarrow> exn option" where
  "demo_markup_error txt =
     (if contains ''[/'' txt
      then Some \<lparr>exn_str = ''closing tag does not match any open tag in '' @ txt,
                 exn_traceback = ''MarkupError: closing tag does not match any open tag in '' @ txt\<rparr>
      else None)"

definition demo_env :: "string list env" where
  "demo_env =
     \<lparr>run_cell = (\<lambda>sh code_str. (sh @ [code_str], Inr (demo_cell code_str))),
      shell_reset = (\<lambda>sh. []),
      new_shell = [],
      dedent = textwrap_dedent,
      markup_error = demo_markup_error,
      open_append = (\<lambda>path. None),
      makedirs = (\<lambda>path. None),
      word_char = ascii_word_char,
      strftime_now = ''Nov032026-203200'',
      str_now = ''2026-11-03 20:32:00.000000'',
      getenv_port = None,
      py_int = (\<lambda>v. Inl (''invalid literal for int() with base 10: '' @ v)),
      httpd_bind = (\<lambda>port_no. Bound)\<rparr>"

definition demo_idle :: "string list server" where
  "demo_idle =
     \<lparr>ipshell = Some [''x = 1''], is_executing = False,
      log_file_path = Some ''/tmp/.pyrepl/Nov032026-203200.md'',
      files = [''/tmp/.pyrepl/Nov032026-203200.md'' \<mapsto> ''# header''],
      events = [], threads = []\<rparr>"

definition demo_busy :: "string list server" where
  "demo_busy = demo_idle\<lparr>is_executing := True, threads := [([JStr ''y = 2''], ''y = 2'')]\<rparr>"


definition demo_body :: "string + json" where
  "demo_body = Inr (JObj [(''code'', JArr [JStr ''  x = 1'', JStr ''  print(x)''])])"

definition demo_log :: string where
  "demo_log = ''/tmp/.pyrepl/Nov032026-203200.md''"

section \<open>Notions used in the statements\<close>

text \<open>
  \<open>code_effect\<close> singles out the events that submitted code can cause: the console echo,
  the call of the engine and the append to the transcript. \<open>is_header\<close> recognises the
  append of a header block. \<open>well_formed_body\<close> describes the bodies that validation lets
  through: a JSON object whose code field is absent or a list. \<open>single_flight\<close> says that
  at most one started worker has not finished, and that the busy flag is set while there
  is one.
\<close>

fun is_console :: "event \<Rightarrow> bool" where
  "is_console (Stdout t) = True"
| "is_console (Print t) = True"
| "is_console e = False"

fun is_aftermath :: "event \<Rightarrow> bool" where
  "is_aftermath (Print t) = True"
| "is_aftermath (File_append p t) = True"
| "is_aftermath (Unhandled t) = True"
| "is_aftermath e = False"

definition echoed :: "'s server \<Rightarrow> 's server \<Rightarrow> bool" where
  "echoed st st' = (\<exists>evs. st' = st\<lparr>events := events st @ evs\<rparr> \<and> list_all is_console evs)"

fun code_effect :: "event \<Rightarrow> bool" where
  "code_effect (Print_code c) = True"
| "code_effect (Run_cell c) = True"
| "code_effect (Stdout t) = True"
| "code_effect (Print t) = True"
| "code_effect (File_append p t) = True"
| "code_effect e = False"

fun is_reset :: "action \<Rightarrow> bool" where
  "is_reset (Request (POST path loaded)) = (path = ''/reset'')"
| "is_reset a = False"

fun is_header :: "event \<Rightarrow> bool" where
  "is_header (File_append p t) = (take 22 t = ''# PyREPL Session Log: '')"
| "is_header e = False"

definition well_formed_body :: "string + json \<Rightarrow> bool" where
  "well_formed_body loaded =
     (case loaded of
        Inl e \<Rightarrow> False
      | Inr (JObj kv) \<Rightarrow>
          (case map_of kv ''code'' of
             None \<Rightarrow> True
           | Some (JArr xs) \<Rightarrow> True
           | Some other \<Rightarrow> False)
      | Inr other \<Rightarrow> False)"

fun startup_state :: "'s startup \<Rightarrow> 's server" where
  "startup_state (Serving st) = st"
| "startup_state (Exited st) = st"

fun is_serving :: "'s startup \<Rightarrow> bool" where
  "is_serving (Serving st) = True"
| "is_serving (Exited st) = False"

definition log_path :: "'s env \<Rightarrow> string option \<Rightarrow> string option \<Rightarrow> string" where
  "log_path E log_dir log_name =
     os_path_join (os_path_join (or_empty log_dir) ''.pyrepl'') (log_filename E log_name)"


definition single_flight :: "'s server \<Rightarrow> bool" where
  "single_flight st = (threads st = [] \<or> (is_executing st \<and> length (threads st) = 1))"

section \<open>Properties of the sanitizer\<close>

lemma csi_tail_suffix: "csi_tail cs = Some rest \<Longrightarrow> suffix rest cs"
proof -
  assume h: "csi_tail cs = Some rest"
  let ?d = "dropWhile intermediate_byte (dropWhile param_byte cs)"
  have "suffix ?d cs"
    by (meson suffix_dropWhile suffix_order.trans)
  moreover from h obtain c where "?d = c # rest"
    by (auto simp: csi_tail_def split: list.splits if_splits)
  ultimately show ?thesis
    by (metis suffix_ConsD)
qed

lemma match_escape_suffix: "match_escape cs = Some rest \<Longrightarrow> suffix rest cs"
  by (cases cs) (auto split: if_splits dest: csi_tail_suffix intro: suffix_ConsI)

lemma length_strip_le: "length (strip_ansi_codes s) \<le> length s"
proof (induction s rule: strip_ansi_codes.induct)
  case 1
  show ?case by simp
next
  case (2 c cs)
  show ?case
  proof (cases "c = ESC")
    case False
    with 2 show ?thesis by simp
  next
    case True
    show ?thesis
    proof (cases "match_escape cs")
      case None
      with True 2 show ?thesis by simp
    next
      case (Some rest)
      with True 2 have "length (strip_ansi_codes rest) \<le> length rest" by simp
      moreover have "length rest < length cs" using Some by (rule match_escape_shorter)
      ultimately show ?thesis using True Some by simp
    qed
  qed
qed

lemma strip_fixed_iff: "strip_ansi_codes s = s \<longleftrightarrow> \<not> has_escape s"
proof (induction s rule: strip_ansi_codes.induct)
  case 1
  show ?case by simp
next
  case (2 c cs)
  show ?case
  proof (cases "c = ESC \<and> match_escape cs \<noteq> None")
    case False
    with 2 show ?thesis by (auto split: option.splits)
  next
    case True
    then obtain rest where r: "match_escape cs = Some rest" by auto
    have "length (strip_ansi_codes rest) \<le> length rest" by (rule length_strip_le)
    moreover have "length rest < length cs" using r by (rule match_escape_shorter)
    ultimately have "length (strip_ansi_codes (c # cs)) < length (c # cs)"
      using True r by simp
    then have "strip_ansi_codes (c # cs) \<noteq> c # cs" by (metis less_irrefl)
    with True show ?thesis by simp
  qed
qed

lemma every_esc_matched_suffix:
  "suffix r s \<Longrightarrow> every_esc_matched s \<Longrightarrow> every_esc_matched r"
proof (induction s)
  case Nil
  then show ?case by simp
next
  case (Cons a s)
  then show ?case by (auto simp: suffix_Cons)
qed

lemma strip_no_esc: "every_esc_matched s \<Longrightarrow> ESC \<notin> set (strip_ansi_codes s)"
proof (induction s rule: strip_ansi_codes.induct)
  case 1
  show ?case by simp
next
  case (2 c cs)
  show ?case
  proof (cases "c = ESC")
    case False
    with 2 show ?thesis by simp
  next
    case True
    with "2.prems" obtain rest where r: "match_escape cs = Some rest" by auto
    from "2.prems" have "every_esc_matched cs" by simp
    with r have "every_esc_matched rest"
      by (meson every_esc_matched_suffix match_escape_suffix)
    with 2 True r show ?thesis by simp
  qed
qed

lemma no_esc_no_escape: "ESC \<notin> set s \<Longrightarrow> \<not> has_escape s"
  by (induction s) auto

text \<open>
  Claim C6 (amended). The sanitizer is the identity on every text that contains no escape
  sequence. Applying it twice equals applying it once exactly when the text it produced
  contains no escape sequence; this is the case whenever every ESC of the input begins an
  escape sequence, and then the result contains no ESC at all.
\<close>

theorem strip_ansi_codes_fixed_points:
  "(\<not> has_escape s \<longrightarrow> strip_ansi_codes s = s) \<and>
   (strip_ansi_codes (strip_ansi_codes t) = strip_ansi_codes t
      \<longleftrightarrow> \<not> has_escape (strip_ansi_codes t)) \<and>
   (every_esc_matched u \<longrightarrow>
      ESC \<notin> set (strip_ansi_codes u) \<and>
      strip_ansi_codes (strip_ansi_codes u) = strip_ansi_codes u)"
proof (intro conjI impI)
  assume "\<not> has_escape s"
  then show "strip_ansi_codes s = s" by (simp add: strip_fixed_iff)
next
  show "strip_ansi_codes (strip_ansi_codes t) = strip_ansi_codes t
      \<longleftrightarrow> \<not> has_escape (strip_ansi_codes t)"
    by (rule strip_fixed_iff)
next
  assume "every_esc_matched u"
  then show "ESC \<notin> set (strip_ansi_codes u)" by (rule strip_no_esc)
next
  assume "every_esc_matched u"
  then have "ESC \<notin> set (strip_ansi_codes u)" by (rule strip_no_esc)
  then have "\<not> has_escape (strip_ansi_codes u)" by (rule no_esc_no_escape)
  then show "strip_ansi_codes (strip_ansi_codes u) = strip_ansi_codes u"
    by (simp add: strip_fixed_iff)
qed

text \<open>
  The three parts at concrete texts: a plain text, a coloured text, and (for the
  equivalence in the middle) the text ESC ESC [ m A, whose sanitized form still contains an
  escape sequence.
\<close>

theorem strip_ansi_codes_fixed_points_witness:
  "\<not> has_escape ''plain text''
   \<and> strip_ansi_codes ''plain text'' = ''plain text''
   \<and> every_esc_matched (ESC # ''[31;1mred'' @ ESC # ''[0m'')
   \<and> strip_ansi_codes (ESC # ''[31;1mred'' @ ESC # ''[0m'') = ''red''
   \<and> strip_ansi_codes (strip_ansi_codes (ESC # ''[31;1mred'' @ ESC # ''[0m''))
       = strip_ansi_codes (ESC # ''[31;1mred'' @ ESC # ''[0m'')
   \<and> has_escape (strip_ansi_codes [ESC, ESC, CHR ''['', CHR ''m'', CHR ''A''])"
proof -
  have h1: "\<not> has_escape ''plain text''" by code_simp
  have h2: "every_esc_matched (ESC # ''[31;1mred'' @ ESC # ''[0m'')" by code_simp
  have h3: "strip_ansi_codes (ESC # ''[31;1mred'' @ ESC # ''[0m'') = ''red''" by code_simp
  have h4: "strip_ansi_codes (strip_ansi_codes [ESC, ESC, CHR ''['', CHR ''m'', CHR ''A''])
      \<noteq> strip_ansi_codes [ESC, ESC, CHR ''['', CHR ''m'', CHR ''A'']" by code_simp
  from strip_ansi_codes_fixed_points
    [of "''plain text''" "[ESC, ESC, CHR ''['', CHR ''m'', CHR ''A'']"
        "ESC # ''[31;1mred'' @ ESC # ''[0m''"]
    h1 h2 h3 h4
  show ?thesis by blast
qed

text \<open>
  Against claim C6 as stated: in ESC ESC [ m A the second ESC begins the sequence ESC [ m.
  Removing it leaves ESC A, which is itself an escape sequence, so a second application
  removes more.
\<close>

theorem strip_not_idempotent:
  "strip_ansi_codes (strip_ansi_codes [ESC, ESC, CHR ''['', CHR ''m'', CHR ''A''])
     \<noteq> strip_ansi_codes [ESC, ESC, CHR ''['', CHR ''m'', CHR ''A'']"
  by code_simp

section \<open>Frame properties of the operations\<close>

lemma emit_fields [simp]:
  "ipshell (emit e st) = ipshell st"
  "is_executing (emit e st) = is_executing st"
  "log_file_path (emit e st) = log_file_path st"
  "files (emit e st) = files st"
  "threads (emit e st) = threads st"
  "events (emit e st) = events st @ [e]"
  by (simp_all add: emit_def)

lemma set_busy_fields [simp]:
  "ipshell (set_busy b st) = ipshell st"
  "is_executing (set_busy b st) = b"
  "log_file_path (set_busy b st) = log_file_path st"
  "files (set_busy b st) = files st"
  "threads (set_busy b st) = threads st"
  "events (set_busy b st) = events st @ [Busy_write b]"
  by (simp_all add: set_busy_def)

lemma send_json_response_fields [simp]:
  "ipshell (send_json_response n j st) = ipshell st"
  "is_executing (send_json_response n j st) = is_executing st"
  "log_file_path (send_json_response n j st) = log_file_path st"
  "files (send_json_response n j st) = files st"
  "threads (send_json_response n j st) = threads st"
  "events (send_json_response n j st) = events st @ [Sent n (Some j)]"
  by (simp_all add: send_json_response_def)

lemma send_empty_fields [simp]:
  "ipshell (send_empty n st) = ipshell st"
  "is_executing (send_empty n st) = is_executing st"
  "log_file_path (send_empty n st) = log_file_path st"
  "files (send_empty n st) = files st"
  "threads (send_empty n st) = threads st"
  "events (send_empty n st) = events st @ [Sent n None]"
  by (simp_all add: send_empty_def)

lemma append_file_fields [simp]:
  "ipshell (append_file p t st) = ipshell st"
  "is_executing (append_file p t st) = is_executing st"
  "log_file_path (append_file p t st) = log_file_path st"
  "threads (append_file p t st) = threads st"
  "events (append_file p t st) = events st @ [File_append p t]"
  "files (append_file p t st) = (files st)(p \<mapsto> (case files st p of None \<Rightarrow> [] | Some old \<Rightarrow> old) @ t)"
  by (simp_all add: append_file_def)

lemma thread_start_fields [simp]:
  "ipshell (thread_start c s st) = ipshell st"
  "is_executing (thread_start c s st) = is_executing st"
  "log_file_path (thread_start c s st) = log_file_path st"
  "files (thread_start c s st) = files st"
  "threads (thread_start c s st) = threads st @ [(c, s)]"
  "events (thread_start c s st) = events st @ [Thread_start c s]"
  by (simp_all add: thread_start_def)




lemma call_run_cell_frame:
  assumes "call_run_cell E cs st = (st', r)"
  shows "is_executing st' = is_executing st" and "log_file_path st' = log_file_path st"
    and "files st' = files st" and "threads st' = threads st"
    and "\<exists>new. events st' = events st @ new \<and> (new = [] \<or> new = [Run_cell cs])"
    and "ipshell st \<noteq> None \<longrightarrow> ipshell st' \<noteq> None"
  using assms by (auto simp add: call_run_cell_def split: option.splits prod.splits)

lemma call_run_cell_prefix:
  "call_run_cell E cs st = (st', r) \<Longrightarrow> prefix (events st) (events st')"
  by (auto simp add: call_run_cell_def split: option.splits prod.splits)

lemma call_run_cell_headers:
  "call_run_cell E cs st = (st', r) \<Longrightarrow>
     filter is_header (events st') = filter is_header (events st)"
  by (auto simp add: call_run_cell_def split: option.splits prod.splits)

lemma call_run_cell_trace:
  assumes "call_run_cell E cs st = (st', r)"
  shows "\<exists>ran. events st' = events st @ ran \<and> (ran = [] \<or> ran = [Run_cell cs])
           \<and> (ipshell st \<noteq> None \<longrightarrow> ran = [Run_cell cs])"
  using assms by (auto simp add: call_run_cell_def split: option.splits prod.splits)

lemma log_record_not_header: "\<not> is_header (File_append p (log_record code_str r))"
  by (simp add: log_record_def Let_def)

lemma header_is_header: "is_header (File_append p (log_header E d n))"
  by (simp add: log_header_def take_Cons')


subsection \<open>States that differ by console output only\<close>

lemma echoed_refl: "echoed st st"
  unfolding echoed_def by (rule exI [of _ "[]"]) simp

lemma echoed_trans: "echoed a b \<Longrightarrow> echoed b c \<Longrightarrow> echoed a c"
  by (auto simp add: echoed_def)

lemma echoed_emit_Stdout: "echoed st (emit (Stdout t) st)"
  by (auto simp add: echoed_def emit_def intro: exI [of _ "[Stdout t]"])

lemma echoed_emit_Print: "echoed st (emit (Print t) st)"
  by (auto simp add: echoed_def emit_def intro: exI [of _ "[Print t]"])

lemma rich_print_echoed: "rich_print E objects st = Inr st' \<Longrightarrow> echoed st st'"
  by (auto simp add: rich_print_def echoed_emit_Print split: option.splits)

lemma echoed_fields:
  assumes "echoed st st'"
  shows "ipshell st' = ipshell st" and "is_executing st' = is_executing st"
    and "log_file_path st' = log_file_path st" and "files st' = files st"
    and "threads st' = threads st"
    and "\<exists>evs. events st' = events st @ evs \<and> list_all is_console evs"
  using assms by (auto simp add: echoed_def)

lemma console_not_header: "list_all is_console evs \<Longrightarrow> filter is_header evs = []"
proof (induction evs)
  case Nil
  show ?case by simp
next
  case (Cons e evs)
  then show ?case by (cases e) simp_all
qed

lemma echoed_headers:
  assumes "echoed st st'"
  shows "filter is_header (events st') = filter is_header (events st)"
proof -
  from echoed_fields(6) [OF assms] obtain evs where
    "events st' = events st @ evs" and "list_all is_console evs" by blast
  then show ?thesis by (simp add: console_not_header)
qed

lemma echoed_prefix: "echoed st st' \<Longrightarrow> prefix (events st) (events st')"
  by (auto simp add: echoed_def)

subsection \<open>The logger\<close>

lemma report_log_error_shape:
  assumes "report_log_error E path e st = (st', x)"
  shows "echoed st st'"
  using assms
  by (auto simp add: report_log_error_def echoed_refl rich_print_echoed split: sum.splits)

lemma write_to_log_frame:
  assumes "write_to_log E c r st = (st', x)"
  shows "ipshell st' = ipshell st" and "is_executing st' = is_executing st"
    and "log_file_path st' = log_file_path st" and "threads st' = threads st"
proof -
  have "echoed st st' \<or> (\<exists>p t. st' = append_file p t st)"
    using assms
    by (auto simp add: write_to_log_def echoed_refl split: option.splits sum.splits if_splits
        dest: report_log_error_shape)
  then show "ipshell st' = ipshell st" and "is_executing st' = is_executing st"
    and "log_file_path st' = log_file_path st" and "threads st' = threads st"
    by (auto dest: echoed_fields)
qed

lemma write_to_log_trace:
  assumes "write_to_log E c r st = (st', x)"
  shows "\<exists>logged. events st' = events st @ logged
          \<and> (logged = [] \<or> (\<exists>t. logged = [Print t])
                \<or> (\<exists>p code_str. logged = [File_append p (log_record code_str r)]))"
  using assms
  by (auto simp add: write_to_log_def report_log_error_def rich_print_def
      split: option.splits sum.splits if_splits)

lemma write_to_log_prefix:
  "write_to_log E c r st = (st', x) \<Longrightarrow> prefix (events st) (events st')"
  using write_to_log_trace [of E c r st st' x] by auto

lemma write_to_log_headers:
  assumes "write_to_log E c r st = (st', x)"
  shows "filter is_header (events st') = filter is_header (events st)"
proof -
  from write_to_log_trace [OF assms] obtain logged where
    l: "events st' = events st @ logged"
       "logged = [] \<or> (\<exists>t. logged = [Print t])
                \<or> (\<exists>p code_str. logged = [File_append p (log_record code_str r)])"
    by blast
  from l(2) have "filter is_header logged = []"
    using log_record_not_header by (auto simp del: is_header.simps(1))
  with l(1) show ?thesis by simp
qed


lemma write_to_log_appends:
  assumes "log_file_path st = Some path" and "path \<noteq> []"
    and "py_join ''\<newline>'' c = Inr code_str" and "open_append E path = None"
  shows "write_to_log E c r st = (append_file path (log_record code_str r) st, None)"
  using assms by (simp add: write_to_log_def)

lemma release_and_log_fields [simp]:
  "ipshell (release_and_log E c r p st) = ipshell st"
  "is_executing (release_and_log E c r p st) = False"
  "log_file_path (release_and_log E c r p st) = log_file_path st"
  "threads (release_and_log E c r p st) = threads st"
proof -
  obtain st' x where w: "write_to_log E c r (set_busy False st) = (st', x)"
    by (cases "write_to_log E c r (set_busy False st)")
  from write_to_log_frame [OF w] w
  show "ipshell (release_and_log E c r p st) = ipshell st"
    "is_executing (release_and_log E c r p st) = False"
    "log_file_path (release_and_log E c r p st) = log_file_path st"
    "threads (release_and_log E c r p st) = threads st"
    by (simp_all add: release_and_log_def split: option.splits)
qed

lemma release_and_log_trace:
  "\<exists>after. events (release_and_log E c r p st) = events st @ [Busy_write False] @ after
     \<and> list_all is_aftermath after"
proof -
  obtain st' x where w: "write_to_log E c r (set_busy False st) = (st', x)"
    by (cases "write_to_log E c r (set_busy False st)")
  from write_to_log_trace [OF w] obtain logged where
    l: "events st' = events st @ [Busy_write False] @ logged"
       "logged = [] \<or> (\<exists>t. logged = [Print t])
                \<or> (\<exists>p code_str. logged = [File_append p (log_record code_str r)])"
    by auto
  from l(2) have a: "list_all is_aftermath logged" by auto
  show ?thesis
  proof (cases x)
    case (Some e)
    with w l a show ?thesis by (simp add: release_and_log_def)
  next
    case None
    with w l a show ?thesis by (cases p) (simp_all add: release_and_log_def)
  qed
qed

lemma release_and_log_prefix: "prefix (events st) (events (release_and_log E c r p st))"
  using release_and_log_trace [of E c r p st] by auto

lemma release_and_log_headers:
  "filter is_header (events (release_and_log E c r p st)) = filter is_header (events st)"
proof -
  obtain st' x where w: "write_to_log E c r (set_busy False st) = (st', x)"
    by (cases "write_to_log E c r (set_busy False st)")
  from write_to_log_headers [OF w] w show ?thesis
    by (simp add: release_and_log_def split: option.splits)
qed

subsection \<open>The worker\<close>

lemma try_block_shape:
  assumes "try_block E cs st = (st', out, r)"
  shows "\<exists>st2 r2. call_run_cell E cs st = (st2, r2) \<and> echoed st2 st'"
proof -
  obtain st2 r2 where c: "call_run_cell E cs st = (st2, r2)" by (cases "call_run_cell E cs st")
  have "echoed st2 st'"
  proof (cases r2)
    case (Inl tb)
    with assms c show ?thesis by (simp add: try_block_def echoed_refl)
  next
    case (Inr cl)
    obtain outp err where k: "classify_outcome cl = (outp, err)"
      by (cases "classify_outcome cl")
    let ?st3 = "if outp \<noteq> [] then emit (Stdout outp) st2 else st2"
    have e3: "echoed st2 ?st3" by (simp add: echoed_refl echoed_emit_Stdout)
    show ?thesis
    proof (cases "err \<noteq> []")
      case False
      with assms c Inr k e3 show ?thesis by (simp add: try_block_def Let_def)
    next
      case True
      show ?thesis
      proof (cases "rich_print E [''[red]'', err] ?st3")
        case (Inl x)
        with assms c Inr k True e3 show ?thesis by (simp add: try_block_def Let_def)
      next
        case (Inr st4)
        then have "echoed ?st3 st4" by (rule rich_print_echoed)
        with e3 have "echoed st2 st4" by (rule echoed_trans)
        with assms c \<open>r2 = Inr cl\<close> k True Inr show ?thesis by (simp add: try_block_def Let_def)
      qed
    qed
  qed
  with c show ?thesis by blast
qed

lemma except_block_shape:
  assumes "except_block E out tb st = (st', result, pending)"
  shows "echoed st st'"
proof -
  let ?st1 = "if or_empty out \<noteq> [] then emit (Stdout (or_empty out)) st else st"
  have e1: "echoed st ?st1" by (simp add: echoed_refl echoed_emit_Stdout)
  show ?thesis
  proof (cases "rich_print E [''[red]Error during background execution:'', tb] ?st1")
    case (Inl x)
    with assms e1 show ?thesis by (simp add: except_block_def Let_def)
  next
    case (Inr st2)
    then have "echoed ?st1 st2" by (rule rich_print_echoed)
    with e1 have "echoed st st2" by (rule echoed_trans)
    with assms Inr show ?thesis by (simp add: except_block_def Let_def)
  qed
qed

lemma worker_shape:
  assumes "format_code c = Inr cblk"
  shows "\<exists>st2 r2 sta result pending.
           call_run_cell E cs (emit (Print_code cblk) st) = (st2, r2)
         \<and> echoed st2 sta
         \<and> run_code_in_background E c cs st = release_and_log E c result pending sta"
proof -
  obtain st' out r where t: "try_block E cs (emit (Print_code cblk) st) = (st', out, r)"
    by (cases "try_block E cs (emit (Print_code cblk) st)") auto
  from try_block_shape [OF t] obtain st2 r2 where
    c: "call_run_cell E cs (emit (Print_code cblk) st) = (st2, r2)" and e: "echoed st2 st'"
    by blast
  show ?thesis
  proof (cases r)
    case (Inr result)
    with assms t have "run_code_in_background E c cs st = release_and_log E c result None st'"
      by (simp add: run_code_in_background_def)
    with c e show ?thesis by blast
  next
    case (Inl tb)
    obtain st3 result pending where x: "except_block E out tb st' = (st3, result, pending)"
      by (cases "except_block E out tb st'") auto
    from except_block_shape [OF x] e have "echoed st2 st3" by (rule echoed_trans [rotated])
    moreover from assms t Inl x
    have "run_code_in_background E c cs st = release_and_log E c result pending st3"
      by (simp add: run_code_in_background_def)
    ultimately show ?thesis using c by blast
  qed
qed

lemma worker_threads [simp]:
  "threads (run_code_in_background E c cs st) = threads st"
proof (cases "format_code c")
  case (Inl e)
  then show ?thesis by (simp add: run_code_in_background_def)
next
  case (Inr cblk)
  from worker_shape [OF Inr, of E cs st] obtain st2 r2 sta result pending where
    w: "call_run_cell E cs (emit (Print_code cblk) st) = (st2, r2)" "echoed st2 sta"
       "run_code_in_background E c cs st = release_and_log E c result pending sta"
    by blast
  from call_run_cell_frame(4) [OF w(1)] echoed_fields(5) [OF w(2)] w(3)
  show ?thesis by simp
qed

lemma worker_prefix: "prefix (events st) (events (run_code_in_background E c cs st))"
proof (cases "format_code c")
  case (Inl e)
  then show ?thesis by (simp add: run_code_in_background_def)
next
  case (Inr cblk)
  from worker_shape [OF Inr, of E cs st] obtain st2 r2 sta result pending where
    w: "call_run_cell E cs (emit (Print_code cblk) st) = (st2, r2)" "echoed st2 sta"
       "run_code_in_background E c cs st = release_and_log E c result pending sta"
    by blast
  have "prefix (events st) (events (emit (Print_code cblk) st))" by simp
  also have "prefix \<dots> (events st2)" using w(1) by (rule call_run_cell_prefix)
  also have "prefix \<dots> (events sta)" using w(2) by (rule echoed_prefix)
  also have "prefix \<dots> (events (release_and_log E c result pending sta))"
    by (rule release_and_log_prefix)
  finally show ?thesis using w(3) by simp
qed

lemma worker_headers:
  "filter is_header (events (run_code_in_background E c cs st)) = filter is_header (events st)"
proof (cases "format_code c")
  case (Inl e)
  then show ?thesis by (simp add: run_code_in_background_def)
next
  case (Inr cblk)
  from worker_shape [OF Inr, of E cs st] obtain st2 r2 sta result pending where
    w: "call_run_cell E cs (emit (Print_code cblk) st) = (st2, r2)" "echoed st2 sta"
       "run_code_in_background E c cs st = release_and_log E c result pending sta"
    by blast
  from call_run_cell_headers [OF w(1)] echoed_headers [OF w(2)] w(3)
  show ?thesis by (simp add: release_and_log_headers)
qed

lemma worker_trace:
  assumes "format_code c = Inr cblk"
  shows "\<exists>ran echo after.
           events (run_code_in_background E c cs st)
             = events st @ [Print_code cblk] @ ran @ echo @ [Busy_write False] @ after
         \<and> (ran = [] \<or> ran = [Run_cell cs])
         \<and> (ipshell st \<noteq> None \<longrightarrow> ran = [Run_cell cs])
         \<and> list_all is_console echo
         \<and> list_all is_aftermath after"
proof -
  from worker_shape [OF assms, of E cs st] obtain st2 r2 sta result pending where
    w: "call_run_cell E cs (emit (Print_code cblk) st) = (st2, r2)" "echoed st2 sta"
       "run_code_in_background E c cs st = release_and_log E c result pending sta"
    by blast
  from call_run_cell_trace [OF w(1)] obtain ran where
    ran: "events st2 = events st @ [Print_code cblk] @ ran"
      "ran = [] \<or> ran = [Run_cell cs]" "ipshell st \<noteq> None \<longrightarrow> ran = [Run_cell cs]"
    by auto
  from echoed_fields(6) [OF w(2)] obtain echo where
    echo: "events sta = events st2 @ echo" "list_all is_console echo" by blast
  from release_and_log_trace [of E c result pending sta] obtain after where
    after: "events (release_and_log E c result pending sta)
        = events sta @ [Busy_write False] @ after" "list_all is_aftermath after"
    by blast
  have "events (run_code_in_background E c cs st)
      = events st @ [Print_code cblk] @ ran @ echo @ [Busy_write False] @ after"
    unfolding w(3) after(1) echo(1) ran(1) by simp
  with ran(2,3) echo(2) after(2) show ?thesis by blast
qed

lemma worker_releases:
  assumes "format_code c = Inr cblk"
  shows "\<not> is_executing (run_code_in_background E c cs st)"
proof -
  from worker_shape [OF assms, of E cs st] obtain sta result pending where
    "run_code_in_background E c cs st = release_and_log E c result pending sta" by blast
  then show ?thesis by simp
qed


lemma console_no_append: "list_all is_console evs \<Longrightarrow> \<forall>e \<in> set evs. \<forall>p t. e \<noteq> File_append p t"
  by (induction evs) auto



lemma aftermath_no_flag: "list_all is_aftermath evs \<Longrightarrow> \<forall>e \<in> set evs. \<forall>b. e \<noteq> Busy_write b"
  by (induction evs) auto

subsection \<open>Handlers and runs\<close>

lemma execute_code_prefix: "prefix (events st) (events (execute_code E loaded st))"
  by (auto simp add: execute_code_def Let_def split: option.splits prod.splits sum.splits)

lemma reset_scope_unfold:
  assumes "ipshell st = Some sh"
  shows "\<exists>st5 x. write_to_log E [JStr ''# Reset Command Received''] [(''output'', reset_msg)]
            (send_json_response 200 (JObj [(''status'', JStr ''ok'')])
              (set_busy False (emit (Print (''[bold yellow]'' @ reset_msg @ ''\<newline>''))
                (emit Shell_reset (st\<lparr>ipshell := Some (shell_reset E sh)\<rparr>))))) = (st5, x)
          \<and> reset_scope E st
              = (case x of Some e \<Rightarrow> emit (Unhandled (exn_traceback e)) st5 | None \<Rightarrow> st5)"
proof -
  let ?st4 = "send_json_response 200 (JObj [(''status'', JStr ''ok'')])
              (set_busy False (emit (Print (''[bold yellow]'' @ reset_msg @ ''\<newline>''))
                (emit Shell_reset (st\<lparr>ipshell := Some (shell_reset E sh)\<rparr>))))"
  obtain st5 x where w: "write_to_log E [JStr ''# Reset Command Received'']
      [(''output'', reset_msg)] ?st4 = (st5, x)"
    by (cases "write_to_log E [JStr ''# Reset Command Received''] [(''output'', reset_msg)] ?st4")
  with assms have "reset_scope E st
      = (case x of Some e \<Rightarrow> emit (Unhandled (exn_traceback e)) st5 | None \<Rightarrow> st5)"
    by (simp add: reset_scope_def Let_def split: option.splits)
  with w show ?thesis by blast
qed

lemma reset_scope_prefix: "prefix (events st) (events (reset_scope E st))"
proof (cases "ipshell st")
  case None
  then show ?thesis by (simp add: reset_scope_def)
next
  case (Some sh)
  let ?st4 = "send_json_response 200 (JObj [(''status'', JStr ''ok'')])
              (set_busy False (emit (Print (''[bold yellow]'' @ reset_msg @ ''\<newline>''))
                (emit Shell_reset (st\<lparr>ipshell := Some (shell_reset E sh)\<rparr>))))"
  from reset_scope_unfold [OF Some, of E] obtain st5 x where
    w: "write_to_log E [JStr ''# Reset Command Received''] [(''output'', reset_msg)] ?st4 = (st5, x)"
    and r: "reset_scope E st
              = (case x of Some e \<Rightarrow> emit (Unhandled (exn_traceback e)) st5 | None \<Rightarrow> st5)"
    by blast
  have "prefix (events st) (events ?st4)" by simp
  also have "prefix \<dots> (events st5)" using w by (rule write_to_log_prefix)
  also have "prefix \<dots> (events (reset_scope E st))"
    unfolding r by (cases x) simp_all
  finally show ?thesis .
qed

lemma reset_scope_headers:
  "filter is_header (events (reset_scope E st)) = filter is_header (events st)"
proof (cases "ipshell st")
  case None
  then show ?thesis by (simp add: reset_scope_def)
next
  case (Some sh)
  let ?st4 = "send_json_response 200 (JObj [(''status'', JStr ''ok'')])
              (set_busy False (emit (Print (''[bold yellow]'' @ reset_msg @ ''\<newline>''))
                (emit Shell_reset (st\<lparr>ipshell := Some (shell_reset E sh)\<rparr>))))"
  from reset_scope_unfold [OF Some, of E] obtain st5 x where
    w: "write_to_log E [JStr ''# Reset Command Received''] [(''output'', reset_msg)] ?st4 = (st5, x)"
    and r: "reset_scope E st
              = (case x of Some e \<Rightarrow> emit (Unhandled (exn_traceback e)) st5 | None \<Rightarrow> st5)"
    by blast
  from write_to_log_headers [OF w] show ?thesis
    unfolding r by (cases x) simp_all
qed

lemma step_prefix: "prefix (events st) (events (step E a st))"
proof (cases a)
  case (Request r)
  show ?thesis
  proof (cases r)
    case (GET path)
    with Request show ?thesis by (simp add: step_def do_GET_def)
  next
    case (POST path loaded)
    with Request show ?thesis
      using execute_code_prefix [of st E loaded] reset_scope_prefix [of st E]
      by (auto simp add: step_def do_POST_def)
  qed
next
  case (Thread_runs i)
  show ?thesis
  proof (cases "i < length (threads st)")
    case False
    with Thread_runs show ?thesis by (simp add: step_def)
  next
    case True
    obtain c cs where t: "threads st ! i = (c, cs)" by (cases "threads st ! i")
    from worker_prefix [of "st\<lparr>threads := take i (threads st) @ drop (Suc i) (threads st)\<rparr>" E c cs]
    show ?thesis using Thread_runs True t by (simp add: step_def)
  qed
qed

lemma run_prefix: "prefix (events st) (events (run E as st))"
proof (induction as arbitrary: st)
  case Nil
  show ?case by simp
next
  case (Cons a as)
  have "prefix (events st) (events (step E a st))" by (rule step_prefix)
  also have "prefix \<dots> (events (run E as (step E a st)))" by (rule Cons.IH)
  finally show ?case by simp
qed

lemma execute_code_headers:
  "filter is_header (events (execute_code E loaded st)) = filter is_header (events st)"
  by (auto simp add: execute_code_def Let_def split: option.splits prod.splits sum.splits)

lemma step_headers:
  "filter is_header (events (step E a st)) = filter is_header (events st)"
proof (cases a)
  case (Request r)
  show ?thesis
  proof (cases r)
    case (GET path)
    with Request show ?thesis by (simp add: step_def do_GET_def)
  next
    case (POST path loaded)
    with Request show ?thesis
      by (simp add: step_def do_POST_def execute_code_headers reset_scope_headers)
  qed
next
  case (Thread_runs i)
  show ?thesis
  proof (cases "i < length (threads st)")
    case False
    with Thread_runs show ?thesis by (simp add: step_def)
  next
    case True
    obtain c cs where t: "threads st ! i = (c, cs)" by (cases "threads st ! i")
    with Thread_runs True show ?thesis by (simp add: step_def worker_headers)
  qed
qed

lemma run_headers:
  "filter is_header (events (run E as st)) = filter is_header (events st)"
  by (induction as arbitrary: st) (simp_all add: step_headers)

section \<open>The admission gate\<close>

lemma validate_well_formed:
  assumes "well_formed_body loaded"
  shows "\<exists>code. validate_code_exc_data loaded = (code, None)"
proof (cases loaded)
  case (Inl e)
  with assms show ?thesis by (simp add: well_formed_body_def)
next
  case (Inr raw)
  show ?thesis
  proof (cases raw)
    case (JObj kv)
    show ?thesis
    proof (cases "map_of kv ''code''")
      case None
      with Inr JObj show ?thesis by (simp add: validate_code_exc_data_def dict_get_def)
    next
      case (Some v)
      with assms Inr JObj show ?thesis
        by (cases v) (simp_all add: well_formed_body_def validate_code_exc_data_def dict_get_def)
    qed
  qed (use assms Inr in \<open>simp_all add: well_formed_body_def\<close>)
qed

lemma validate_malformed:
  assumes "\<not> well_formed_body loaded"
  shows "\<exists>detail. validate_code_exc_data loaded = ([], Some (''Failed to parse request: '' @ detail))"
proof (cases loaded)
  case (Inl e)
  then show ?thesis by (simp add: validate_code_exc_data_def parse_failure_def)
next
  case (Inr raw)
  show ?thesis
  proof (cases raw)
    case (JObj kv)
    show ?thesis
    proof (cases "map_of kv ''code''")
      case None
      with assms Inr JObj show ?thesis by (simp add: well_formed_body_def)
    next
      case (Some v)
      with assms Inr JObj show ?thesis
        by (cases v)
          (simp_all add: well_formed_body_def validate_code_exc_data_def dict_get_def
            parse_failure_def)
    qed
  qed (use Inr in \<open>simp_all add: validate_code_exc_data_def parse_failure_def\<close>)
qed

lemma worker_single_flight:
  assumes "threads st = []"
  shows "single_flight (run_code_in_background E c cs st)"
  using assms by (simp add: single_flight_def)

lemma execute_code_single_flight:
  assumes "single_flight st"
  shows "single_flight (execute_code E loaded st)"
proof (cases "ipshell st")
  case None
  with assms show ?thesis by (simp add: execute_code_def single_flight_def)
next
  case (Some sh)
  obtain code err where v: "validate_code_exc_data loaded = (code, err)"
    by (cases "validate_code_exc_data loaded")
  show ?thesis
  proof (cases err)
    case (Some e)
    with \<open>ipshell st = Some sh\<close> v assms show ?thesis
      by (simp add: execute_code_def single_flight_def)
  next
    case None
    show ?thesis
    proof (cases "is_executing st")
      case True
      with \<open>ipshell st = Some sh\<close> v None assms show ?thesis
        by (simp add: execute_code_def single_flight_def)
    next
      case False
      with assms have "threads st = []" by (auto simp add: single_flight_def)
      with \<open>ipshell st = Some sh\<close> v None False show ?thesis
        by (simp add: execute_code_def single_flight_def Let_def split: sum.splits)
    qed
  qed
qed

lemma step_single_flight:
  assumes "single_flight st" and "\<not> is_reset a"
  shows "single_flight (step E a st)"
proof (cases a)
  case (Request r)
  show ?thesis
  proof (cases r)
    case (GET path)
    with Request assms show ?thesis by (simp add: step_def do_GET_def single_flight_def)
  next
    case (POST path loaded)
    with Request assms have "path \<noteq> ''/reset''" by simp
    with Request POST assms show ?thesis
      using execute_code_single_flight [of st E loaded]
      by (auto simp add: step_def do_POST_def single_flight_def)
  qed
next
  case (Thread_runs i)
  show ?thesis
  proof (cases "i < length (threads st)")
    case False
    with Thread_runs assms show ?thesis by (simp add: step_def)
  next
    case True
    with assms have l: "length (threads st) = 1" and "i = 0" by (auto simp add: single_flight_def)
    obtain c cs where t: "threads st ! i = (c, cs)" by (cases "threads st ! i")
    have "threads (st\<lparr>threads := take i (threads st) @ drop (Suc i) (threads st)\<rparr>) = []"
      using l \<open>i = 0\<close> by simp
    from worker_single_flight [OF this, of E c cs]
    show ?thesis using Thread_runs True t by (simp add: step_def)
  qed
qed

lemma run_single_flight:
  assumes "single_flight st" and "\<forall>a \<in> set as. \<not> is_reset a"
  shows "single_flight (run E as st)"
  using assms
proof (induction as arbitrary: st)
  case Nil
  then show ?case by simp
next
  case (Cons a as)
  then have "single_flight (step E a st)" by (simp add: step_single_flight)
  with Cons show ?case by simp
qed

text \<open>
  Claim C1 (amended). In every state in which the session is initialized and the busy flag
  is set, a POST /execute whose body passes validation is answered 409 with the body
  {"error": "Server is busy executing previous code"}; the state is unchanged but for that
  response in the trace: session, busy flag, files and started threads stay as they are
  and no log record is appended. The test and the assignment of the flag are one step of
  the model. In every run from a state without a started worker in which no POST /reset
  is issued, at most one started worker has not finished.
\<close>

theorem busy_gate_rejects:
  "(ipshell st = Some sh \<and> is_executing st \<and> snd (validate_code_exc_data loaded) = None \<longrightarrow>
      execute_code E loaded st = st\<lparr>events := events st @ [Sent 409 (Some busy_body)]\<rparr>)
   \<and> (threads st0 = [] \<and> (\<forall>a \<in> set as. \<not> is_reset a) \<longrightarrow>
        length (threads (run E as st0)) \<le> 1)"
proof (intro conjI impI)
  assume "ipshell st = Some sh \<and> is_executing st \<and> snd (validate_code_exc_data loaded) = None"
  then show "execute_code E loaded st = st\<lparr>events := events st @ [Sent 409 (Some busy_body)]\<rparr>"
    by (auto simp add: execute_code_def send_json_response_def emit_def split: prod.splits option.splits)
next
  assume a: "threads st0 = [] \<and> (\<forall>a \<in> set as. \<not> is_reset a)"
  then have "single_flight st0" by (simp add: single_flight_def)
  with a have "single_flight (run E as st0)" by (simp add: run_single_flight)
  then show "length (threads (run E as st0)) \<le> 1" by (auto simp add: single_flight_def)
qed

text \<open>
  The rejection at a busy state, and a run in which a second request arrives while the
  first worker has not run.
\<close>

theorem busy_gate_rejects_witness:
  "ipshell demo_busy = Some [''x = 1''] \<and> is_executing demo_busy
   \<and> snd (validate_code_exc_data demo_body) = None
   \<and> execute_code demo_env demo_body demo_busy
       = demo_busy\<lparr>events := events demo_busy @ [Sent 409 (Some busy_body)]\<rparr>
   \<and> events (execute_code demo_env demo_body demo_busy) = [Sent 409 (Some busy_body)]
   \<and> threads demo_idle = []
   \<and> length (threads (run demo_env
        [Request (POST ''/execute'' demo_body), Request (POST ''/execute'' demo_body),
         Thread_runs 0, Request (GET ''/health''), Request (POST ''/execute'' demo_body)]
        demo_idle)) \<le> 1"
proof -
  let ?as = "[Request (POST ''/execute'' demo_body), Request (POST ''/execute'' demo_body),
         Thread_runs 0, Request (GET ''/health''), Request (POST ''/execute'' demo_body)]"
  have h1: "ipshell demo_busy = Some [''x = 1''] \<and> is_executing demo_busy
      \<and> snd (validate_code_exc_data demo_body) = None" by code_simp
  have h2: "threads demo_idle = [] \<and> (\<forall>a \<in> set ?as. \<not> is_reset a)"
    by (simp add: demo_idle_def)
  have h3: "events (execute_code demo_env demo_body demo_busy) = [Sent 409 (Some busy_body)]"
    by code_simp
  from busy_gate_rejects
    [of demo_busy "[''x = 1'']" demo_body demo_env demo_idle ?as] h1 h2 h3
  show ?thesis by blast
qed

text \<open>
  Against claim C1 as stated: validation comes before the gate, so a body that is not JSON
  is answered 400 while the busy flag is set.
\<close>

theorem busy_malformed_body_gets_400:
  "ipshell demo_busy = Some [''x = 1''] \<and> is_executing demo_busy
   \<and> events (execute_code demo_env (Inl ''Expecting value: line 1 column 1 (char 0)'') demo_busy)
       = [Sent 400 (Some (JObj [(''error'',
            JStr ''Failed to parse request: Expecting value: line 1 column 1 (char 0)'')]))]"
  by code_simp

text \<open>
  Claim C2. The busy flag is to be cleared on every exit path after an admission. The
  request body {"code": [1]} is admitted: the flag is set and 200 is sent. Joining the
  lines then raises TypeError in the handler, no worker thread is created, and the flag
  stays set: the next well-formed request is answered 409.
\<close>

theorem non_string_line_leaves_gate_busy:
  "is_executing (execute_code demo_env (Inr (JObj [(''code'', JArr [JInt 1])])) demo_idle)
   \<and> threads (execute_code demo_env (Inr (JObj [(''code'', JArr [JInt 1])])) demo_idle) = []
   \<and> events (execute_code demo_env (Inr (JObj [(''code'', JArr [JInt 1])])) demo_idle)
       = [Busy_write True, Sent 200 (Some accepted_body),
          Unhandled ''TypeError: sequence item 0: expected str instance, int found'']
   \<and> events (execute_code demo_env demo_body
         (execute_code demo_env (Inr (JObj [(''code'', JArr [JInt 1])])) demo_idle))
       = [Busy_write True, Sent 200 (Some accepted_body),
          Unhandled ''TypeError: sequence item 0: expected str instance, int found'',
          Sent 409 (Some busy_body)]"
  by code_simp

text \<open>
  The worker, once it is past the console echo of the submitted code, clears the busy
  flag on every path (the engine returns, reports a failure, or raises, or a console echo
  raises), and it does so before the transcript is touched: no append precedes the write
  of the flag, and the flag is not written again.
\<close>

theorem worker_releases_gate:
  assumes "format_code code_lines = Inr cblk"
  shows "\<not> is_executing (run_code_in_background E code_lines code_str st)
       \<and> (\<exists>before after.
             events (run_code_in_background E code_lines code_str st)
               = events st @ before @ [Busy_write False] @ after
           \<and> (\<forall>e \<in> set before. \<forall>p t. e \<noteq> File_append p t)
           \<and> (\<forall>e \<in> set after. \<forall>b. e \<noteq> Busy_write b))"
proof -
  from worker_trace [OF assms, of E code_str st] obtain ran echo after where
    t: "events (run_code_in_background E code_lines code_str st)
             = events st @ [Print_code cblk] @ ran @ echo @ [Busy_write False] @ after"
       "ran = [] \<or> ran = [Run_cell code_str]"
       "list_all is_console echo" "list_all is_aftermath after"
    by blast
  let ?before = "[Print_code cblk] @ ran @ echo"
  have "events (run_code_in_background E code_lines code_str st)
               = events st @ ?before @ [Busy_write False] @ after"
    using t(1) by simp
  moreover have "\<forall>e \<in> set ?before. \<forall>p t. e \<noteq> File_append p t"
    using t(2) console_no_append [OF t(3)] by auto
  moreover have "\<forall>e \<in> set after. \<forall>b. e \<noteq> Busy_write b"
    using t(4) by (rule aftermath_no_flag)
  ultimately have "\<exists>before after.
             events (run_code_in_background E code_lines code_str st)
               = events st @ before @ [Busy_write False] @ after
           \<and> (\<forall>e \<in> set before. \<forall>p t. e \<noteq> File_append p t)
           \<and> (\<forall>e \<in> set after. \<forall>b. e \<noteq> Busy_write b)"
    by blast
  with worker_releases [OF assms] show ?thesis by blast
qed

theorem worker_releases_gate_witness:
  "format_code [JStr ''y = 2''] = Inr ''>> y = 2''
   \<and> is_executing demo_busy
   \<and> \<not> is_executing (run_code_in_background demo_env [JStr ''y = 2''] ''y = 2'' demo_busy)
   \<and> events (run_code_in_background demo_env [JStr ''y = 2''] ''y = 2'' demo_busy)
       = [Print_code ''>> y = 2'', Run_cell ''y = 2'', Stdout ''y = 2'', Busy_write False,
          File_append demo_log (log_record ''y = 2'' [(''output'', ''y = 2''), (''error'', [])])]"
proof -
  have h: "format_code [JStr ''y = 2''] = Inr ''>> y = 2''" by code_simp
  have b: "is_executing demo_busy" by code_simp
  have e: "events (run_code_in_background demo_env [JStr ''y = 2''] ''y = 2'' demo_busy)
       = [Print_code ''>> y = 2'', Run_cell ''y = 2'', Stdout ''y = 2'', Busy_write False,
          File_append demo_log (log_record ''y = 2'' [(''output'', ''y = 2''), (''error'', [])])]"
    by code_simp
  from worker_releases_gate [OF h, of demo_env "''y = 2''" demo_busy] h b e
  show ?thesis by blast
qed

section \<open>Validation of the request body\<close>

text \<open>
  Claim C3 (amended). With the session initialized, a body that is not JSON, or not a JSON
  object, or whose code field is present and not a list, is answered 400 with a non-empty
  error detail, and nothing else changes: no log record, no change of the busy flag. A
  body that is a JSON object whose code field is absent or a list is never answered 400:
  it is answered 409 when the busy flag is set and is accepted with 200 otherwise.
\<close>

theorem execute_code_malformed:
  assumes "ipshell st = Some sh"
  shows "(\<not> well_formed_body loaded \<longrightarrow>
            (\<exists>detail. detail \<noteq> [] \<and>
               execute_code E loaded st
                 = st\<lparr>events := events st @ [Sent 400 (Some (JObj [(''error'', JStr detail)]))]\<rparr>))
       \<and> (well_formed_body loaded \<longrightarrow>
            (if is_executing st
             then execute_code E loaded st = st\<lparr>events := events st @ [Sent 409 (Some busy_body)]\<rparr>
             else \<exists>rest. events (execute_code E loaded st)
                    = events st @ [Busy_write True, Sent 200 (Some accepted_body)] @ rest))"
proof (intro conjI impI)
  assume "\<not> well_formed_body loaded"
  from validate_malformed [OF this] obtain detail where
    "validate_code_exc_data loaded = ([], Some (''Failed to parse request: '' @ detail))" by blast
  with assms have "execute_code E loaded st
      = st\<lparr>events := events st @
          [Sent 400 (Some (JObj [(''error'', JStr (''Failed to parse request: '' @ detail))]))]\<rparr>"
    by (simp add: execute_code_def send_json_response_def emit_def)
  moreover have "''Failed to parse request: '' @ detail \<noteq> []" by simp
  ultimately show "\<exists>detail. detail \<noteq> [] \<and>
               execute_code E loaded st
                 = st\<lparr>events := events st @ [Sent 400 (Some (JObj [(''error'', JStr detail)]))]\<rparr>"
    by blast
next
  assume "well_formed_body loaded"
  from validate_well_formed [OF this] obtain code where
    v: "validate_code_exc_data loaded = (code, None)" by blast
  show "if is_executing st
        then execute_code E loaded st = st\<lparr>events := events st @ [Sent 409 (Some busy_body)]\<rparr>
        else \<exists>rest. events (execute_code E loaded st)
               = events st @ [Busy_write True, Sent 200 (Some accepted_body)] @ rest"
    using assms v
    by (auto simp add: execute_code_def send_json_response_def emit_def Let_def set_busy_def
        thread_start_def split: sum.splits)
qed

text \<open>
  The two parts at the bodies {"code": "not-a-list"} and
  {"code": ["  x = 1", "  print(x)"]}.
\<close>

theorem execute_code_malformed_witness:
  "ipshell demo_idle = Some [''x = 1'']
   \<and> \<not> well_formed_body (Inr (JObj [(''code'', JStr ''not-a-list'')]))
   \<and> (\<exists>detail. detail \<noteq> [] \<and>
         execute_code demo_env (Inr (JObj [(''code'', JStr ''not-a-list'')])) demo_idle
           = demo_idle\<lparr>events := events demo_idle
               @ [Sent 400 (Some (JObj [(''error'', JStr detail)]))]\<rparr>)
   \<and> well_formed_body demo_body \<and> \<not> is_executing demo_idle
   \<and> (\<exists>rest. events (execute_code demo_env demo_body demo_idle)
         = events demo_idle @ [Busy_write True, Sent 200 (Some accepted_body)] @ rest)"
proof -
  have h1: "ipshell demo_idle = Some [''x = 1'']" by code_simp
  have h2: "\<not> well_formed_body (Inr (JObj [(''code'', JStr ''not-a-list'')]))" by code_simp
  have h3: "well_formed_body demo_body \<and> \<not> is_executing demo_idle" by code_simp
  from execute_code_malformed [OF h1, of "Inr (JObj [(''code'', JStr ''not-a-list'')])" demo_env]
    execute_code_malformed [OF h1, of demo_body demo_env] h1 h2 h3
  show ?thesis by auto
qed

text \<open>
  Against claim C3 as stated: the body {} has no code field; the field defaults to the
  empty list and the request is accepted.
\<close>

theorem missing_code_field_accepted:
  "ipshell demo_idle = Some [''x = 1''] \<and> \<not> is_executing demo_idle
   \<and> events (execute_code demo_env (Inr (JObj [])) demo_idle)
       = [Busy_write True, Sent 200 (Some accepted_body), Thread_start [] []]
   \<and> is_executing (execute_code demo_env (Inr (JObj [])) demo_idle)"
  by code_simp

section \<open>The response precedes the effects of the code\<close>

text \<open>
  Claim C4. For every accepted POST /execute, the handler first sets the busy flag and
  sends 200 {"status": "Execution request accepted"}; whatever else the handler itself
  does is no effect of the submitted code, and in every continuation of the run (the
  worker of this request included) everything that happens after the request arrived
  comes behind that response in the trace: the console echo, the call of the engine and
  the append to the transcript.
\<close>

theorem accepted_response_first:
  assumes "ipshell st = Some sh" and "validate_code_exc_data loaded = (code, None)"
    and "\<not> is_executing st"
  shows "(\<exists>rest. events (execute_code E loaded st)
            = events st @ [Busy_write True, Sent 200 (Some accepted_body)] @ rest
          \<and> (\<forall>e \<in> set rest. \<not> code_effect e))
       \<and> (\<exists>later. events (run E as (execute_code E loaded st))
            = events st @ [Busy_write True, Sent 200 (Some accepted_body)] @ later)"
proof
  show h: "\<exists>rest. events (execute_code E loaded st)
            = events st @ [Busy_write True, Sent 200 (Some accepted_body)] @ rest
          \<and> (\<forall>e \<in> set rest. \<not> code_effect e)"
    using assms by (auto simp add: execute_code_def Let_def split: sum.splits)
  then have "prefix (events st @ [Busy_write True, Sent 200 (Some accepted_body)])
      (events (execute_code E loaded st))"
    by (auto simp add: prefix_def)
  also have "prefix \<dots> (events (run E as (execute_code E loaded st)))"
    by (rule run_prefix)
  finally show "\<exists>later. events (run E as (execute_code E loaded st))
            = events st @ [Busy_write True, Sent 200 (Some accepted_body)] @ later"
    by (auto simp add: prefix_def)
qed

text \<open>
  An accepted request followed by its worker: the response is the second event, the echo
  and the call of the engine follow the start of the thread.
\<close>

theorem accepted_response_first_witness:
  "ipshell demo_idle = Some [''x = 1'']
   \<and> validate_code_exc_data demo_body = ([JStr ''  x = 1'', JStr ''  print(x)''], None)
   \<and> \<not> is_executing demo_idle
   \<and> (\<exists>later. events (run demo_env [Thread_runs 0] (execute_code demo_env demo_body demo_idle))
         = events demo_idle @ [Busy_write True, Sent 200 (Some accepted_body)] @ later)
   \<and> take 5 (events (run demo_env [Thread_runs 0] (execute_code demo_env demo_body demo_idle)))
       = [Busy_write True, Sent 200 (Some accepted_body),
          Thread_start [JStr ''  x = 1'', JStr ''  print(x)''] ''x = 1\<newline>print(x)'',
          Print_code ''>>   x = 1\<newline>     print(x)'', Run_cell ''x = 1\<newline>print(x)'']"
proof -
  have h1: "ipshell demo_idle = Some [''x = 1'']" by code_simp
  have h2: "validate_code_exc_data demo_body = ([JStr ''  x = 1'', JStr ''  print(x)''], None)"
    by code_simp
  have h3: "\<not> is_executing demo_idle" by code_simp
  have h4: "take 5 (events (run demo_env [Thread_runs 0] (execute_code demo_env demo_body demo_idle)))
       = [Busy_write True, Sent 200 (Some accepted_body),
          Thread_start [JStr ''  x = 1'', JStr ''  print(x)''] ''x = 1\<newline>print(x)'',
          Print_code ''>>   x = 1\<newline>     print(x)'', Run_cell ''x = 1\<newline>print(x)'']"
    by code_simp
  from accepted_response_first [OF h1 h2 h3, of demo_env "[Thread_runs 0]"] h1 h2 h3 h4
  show ?thesis by blast
qed

section \<open>Reset\<close>




section \<open>Classification of a failed run\<close>

text \<open>
  For a failure during the run the classification keeps the captured standard output and
  takes the rendering of the failure as error text exactly when both captured streams are
  empty. When the echo of the error text renders and the log file can be written, this
  outcome is what the transcript receives.
\<close>

lemma classify_run_failure:
  assumes "error_before_exec c = None" and "error_in_exec c = Some e"
  shows "classify_outcome c
           = (stdout c, if stdout c = [] \<and> stderr c = [] then exn_traceback e else stderr c)"
  using assms by (simp add: classify_outcome_def Let_def)

lemma run_failure_recorded:
  assumes "format_code code_lines = Inr cblk" and "ipshell st = Some sh"
    and "run_cell E sh code_str = (sh', Inr c)"
    and "error_before_exec c = None" and "error_in_exec c = Some e"
    and "first_markup_error E
           [''[red]'', if stdout c = [] \<and> stderr c = [] then exn_traceback e else stderr c] = None"
    and "log_file_path st = Some path" and "path \<noteq> []"
    and "py_join ''\<newline>'' code_lines = Inr joined" and "open_append E path = None"
  shows "files (run_code_in_background E code_lines code_str st)
           = (files st)(path \<mapsto> or_empty (files st path)
               @ log_record joined
                   [(''output'', stdout c),
                    (''error'', if stdout c = [] \<and> stderr c = []
                                then exn_traceback e else stderr c)])"
proof -
  let ?err = "if stdout c = [] \<and> stderr c = [] then exn_traceback e else stderr c"
  let ?result = "[(''output'', stdout c), (''error'', ?err)]"
  let ?st2 = "emit (Run_cell code_str) (emit (Print_code cblk) st\<lparr>ipshell := Some sh'\<rparr>)"
  let ?st3 = "if stdout c \<noteq> [] then emit (Stdout (stdout c)) ?st2 else ?st2"
  let ?st4 = "if ?err \<noteq> [] then emit (Print (concat [''[red]'', ?err])) ?st3 else ?st3"
  have k: "classify_outcome c = (stdout c, ?err)"
    using assms(4,5) by (rule classify_run_failure)
  have c: "call_run_cell E code_str (emit (Print_code cblk) st) = (?st2, Inr c)"
    using assms(2,3) by (simp add: call_run_cell_def)
  have t: "try_block E code_str (emit (Print_code cblk) st) = (?st4, Some (stdout c), Inr ?result)"
    using c k assms(6) by (simp add: try_block_def Let_def rich_print_def)
  have w: "run_code_in_background E code_lines code_str st
      = release_and_log E code_lines ?result None ?st4"
    using assms(1) t by (simp add: run_code_in_background_def)
  have l: "log_file_path (set_busy False ?st4) = Some path" using assms(7) by simp
  have f: "files (set_busy False ?st4) = files st" by simp
  from write_to_log_appends [OF l assms(8,9,10), of ?result]
  have "release_and_log E code_lines ?result None ?st4
      = append_file path (log_record joined ?result) (set_busy False ?st4)"
    by (simp add: release_and_log_def)
  with w f show ?thesis by (simp add: or_empty_def)
qed

text \<open>
  Claim C7. Captured output of a failed run is to be preserved in the recorded outcome.
  A unit fails during the run after it wrote "out" to standard output and
  "see [/usr/lib] for details" to standard error. The echo of the error text in line 120
  raises a markup error, the print of the handler in line 129 raises again on the
  rendering of that error, the result keeps its initial value, and the record that the
  finally clause appends has an empty output block: neither captured stream is recorded.
\<close>

theorem markup_in_stderr_loses_outcome:
  "error_before_exec (demo_cell ''warn(); 1/0'') = None
   \<and> error_in_exec (demo_cell ''warn(); 1/0'')
       = Some \<lparr>exn_str = ''division by zero'',
               exn_traceback = ''ZeroDivisionError: division by zero''\<rparr>
   \<and> stdout (demo_cell ''warn(); 1/0'') = ''out\<newline>''
   \<and> stderr (demo_cell ''warn(); 1/0'') = ''see [/usr/lib] for details''
   \<and> events (run_code_in_background demo_env [JStr ''warn(); 1/0''] ''warn(); 1/0'' demo_busy)
       = [Print_code ''>> warn(); 1/0'', Run_cell ''warn(); 1/0'', Stdout ''out\<newline>'',
          Stdout ''out\<newline>'', Busy_write False,
          File_append demo_log (log_record ''warn(); 1/0'' []),
          Unhandled ''MarkupError: closing tag does not match any open tag in MarkupError: closing tag does not match any open tag in see [/usr/lib] for details'']
   \<and> log_record ''warn(); 1/0'' []
       = ''```python\<newline>warn(); 1/0\<newline>```\<newline>\<newline><output>\<newline>\<newline></output>\<newline>\<newline>''"
  by code_simp

section \<open>The log file is set up at start-up\<close>

lemma setup_logging_enabled:
  assumes "truthy log_dir"
    and "makedirs E (os_path_join (or_empty log_dir) ''.pyrepl'') = None"
    and "markup_error E (''[blue]Logging enabled. Log file: '' @ log_path E log_dir log_name) = None"
    and "open_append E (log_path E log_dir log_name) = None"
  shows "setup_logging E log_dir log_name st
     = (append_file (log_path E log_dir log_name) (log_header E (or_empty log_dir) log_name)
          (emit (Print (''[blue]Logging enabled. Log file: '' @ log_path E log_dir log_name))
             (st\<lparr>log_file_path := Some (log_path E log_dir log_name)\<rparr>)),
        Inr (Some (log_path E log_dir log_name)))"
  using assms by (simp add: setup_logging_def Let_def log_path_def rich_print_def)

text \<open>
  Claim C8 (amended). The transcript is initialized at start-up, not at the first append.
  When a log directory is configured, the directory can be created, the announcement of
  the log file renders and the file can be opened, the server that reaches serve_forever
  has the log file path set to the timestamp-derived name (with the sanitized session
  name, if one is given) under the subdirectory .pyrepl of the log directory, and the file
  already ends with the header block. In every run that follows, the header written at
  start-up remains the only header that is ever written: appends write records only.
\<close>

theorem logging_set_up_at_startup:
  assumes "truthy log_dir"
    and "makedirs E (os_path_join (or_empty log_dir) ''.pyrepl'') = None"
    and "markup_error E (''[blue]Logging enabled. Log file: '' @ log_path E log_dir log_name) = None"
    and "open_append E (log_path E log_dir log_name) = None"
    and "run_server E log_dir log_name (boot fs) = Serving st0"
  shows "log_file_path st0 = Some (log_path E log_dir log_name)
       \<and> files st0 (log_path E log_dir log_name)
           = Some (or_empty (fs (log_path E log_dir log_name))
                     @ log_header E (or_empty log_dir) log_name)
       \<and> filter is_header (events (run E as st0))
           = [File_append (log_path E log_dir log_name) (log_header E (or_empty log_dir) log_name)]"
proof -
  let ?p = "log_path E log_dir log_name"
  let ?h = "log_header E (or_empty log_dir) log_name"
  let ?s1 = "append_file ?p ?h
          (emit (Print (''[blue]Logging enabled. Log file: '' @ ?p))
             ((boot fs)\<lparr>log_file_path := Some ?p\<rparr>))"
  let ?s4 = "emit (Print ''[blue]Initializing IPython & loading default extensions...'')
     (?s1\<lparr>log_file_path := Some ?p, ipshell := Some (new_shell E)\<rparr>)"
  have s: "setup_logging E log_dir log_name (boot fs) = (?s1, Inr (Some ?p))"
    using assms(1-4) by (rule setup_logging_enabled)
  obtain st5 r1 where c1: "call_run_cell E ''%load_ext autoreload'' ?s4 = (st5, r1)"
    by (cases "call_run_cell E ''%load_ext autoreload'' ?s4")
  obtain st6 r2 where c2: "call_run_cell E ''%autoreload 2'' st5 = (st6, r2)"
    by (cases "call_run_cell E ''%autoreload 2'' st5")
  from assms(5) s c1 c2 have "\<exists>port_no. st0
      = emit (Print (''[bold blue]Server running on http://localhost:'' @ show_int port_no)) st6"
    by (auto simp add: run_server_def Let_def start_httpd_def exit_after_def
        split: sum.splits bind_result.splits if_splits)
  then obtain port_no where st0: "st0
      = emit (Print (''[bold blue]Server running on http://localhost:'' @ show_int port_no)) st6"
    by blast
  have f4: "files ?s4 ?p = Some (or_empty (fs ?p) @ ?h)"
    by (simp add: boot_def or_empty_def)
  have l4: "log_file_path ?s4 = Some ?p" by simp
  have h4: "filter is_header (events ?s4) = [File_append ?p ?h]"
    using header_is_header [of ?p E "or_empty log_dir" log_name]
    by (simp add: boot_def del: is_header.simps(1))
  from call_run_cell_frame(2,3) [OF c1] call_run_cell_frame(2,3) [OF c2] f4 l4
  have "log_file_path st6 = Some ?p" and "files st6 ?p = Some (or_empty (fs ?p) @ ?h)"
    by simp_all
  moreover from call_run_cell_headers [OF c1] call_run_cell_headers [OF c2] h4
  have "filter is_header (events st6) = [File_append ?p ?h]" by simp
  ultimately show ?thesis
    unfolding st0 by (simp add: run_headers)
qed

text \<open>
  A start-up with a session name, followed by an execution and a reset.
\<close>

theorem logging_set_up_at_startup_witness:
  "truthy (Some ''/tmp'')
   \<and> makedirs demo_env (os_path_join (or_empty (Some ''/tmp'')) ''.pyrepl'') = None
   \<and> log_path demo_env (Some ''/tmp'') (Some ''my session/1'')
       = ''/tmp/.pyrepl/Nov032026-203200-my_session_1.md''
   \<and> markup_error demo_env
        (''[blue]Logging enabled. Log file: /tmp/.pyrepl/Nov032026-203200-my_session_1.md'') = None
   \<and> open_append demo_env ''/tmp/.pyrepl/Nov032026-203200-my_session_1.md'' = None
   \<and> is_serving (run_server demo_env (Some ''/tmp'') (Some ''my session/1'') (boot Map.empty))
   \<and> log_file_path
        (startup_state (run_server demo_env (Some ''/tmp'') (Some ''my session/1'') (boot Map.empty)))
       = Some ''/tmp/.pyrepl/Nov032026-203200-my_session_1.md''
   \<and> files
        (startup_state (run_server demo_env (Some ''/tmp'') (Some ''my session/1'') (boot Map.empty)))
        ''/tmp/.pyrepl/Nov032026-203200-my_session_1.md''
       = Some ''# PyREPL Session Log: 2026-11-03 20:32:00.000000\<newline># CWD: /tmp\<newline># Session Name: my session/1\<newline>\<newline>''
   \<and> filter is_header
        (events (run demo_env [Request (POST ''/execute'' demo_body), Thread_runs 0,
                   Request (POST ''/reset'' (Inl []))]
           (startup_state
              (run_server demo_env (Some ''/tmp'') (Some ''my session/1'') (boot Map.empty)))))
       = [File_append ''/tmp/.pyrepl/Nov032026-203200-my_session_1.md''
            ''# PyREPL Session Log: 2026-11-03 20:32:00.000000\<newline># CWD: /tmp\<newline># Session Name: my session/1\<newline>\<newline>'']"
proof -
  let ?d = "Some ''/tmp''" and ?n = "Some ''my session/1''"
  let ?p = "''/tmp/.pyrepl/Nov032026-203200-my_session_1.md''"
  let ?st0 = "startup_state (run_server demo_env ?d ?n (boot Map.empty))"
  have h1: "truthy ?d" by code_simp
  have h2: "makedirs demo_env (os_path_join (or_empty ?d) ''.pyrepl'') = None"
    by (simp add: demo_env_def)
  have p: "log_path demo_env ?d ?n = ?p" by code_simp
  have h3: "open_append demo_env (log_path demo_env ?d ?n) = None" by (simp add: demo_env_def)
  have hm: "markup_error demo_env (''[blue]Logging enabled. Log file: '' @ log_path demo_env ?d ?n)
      = None" by code_simp
  have s: "is_serving (run_server demo_env ?d ?n (boot Map.empty))" by code_simp
  then have h4: "run_server demo_env ?d ?n (boot Map.empty) = Serving ?st0"
    by (cases "run_server demo_env ?d ?n (boot Map.empty)") simp_all
  have hd: "log_header demo_env (or_empty ?d) ?n
      = ''# PyREPL Session Log: 2026-11-03 20:32:00.000000\<newline># CWD: /tmp\<newline># Session Name: my session/1\<newline>\<newline>''"
    by code_simp
  have e: "or_empty ((Map.empty :: string \<Rightarrow> string option) ?p) = []" by (simp add: or_empty_def)
  from logging_set_up_at_startup [OF h1 h2 hm h3 h4,
      of "[Request (POST ''/execute'' demo_body), Thread_runs 0, Request (POST ''/reset'' (Inl []))]"]
    h1 h2 h3 hm s
  show ?thesis unfolding p hd e by simp
qed

text \<open>
  Against claim C8 as stated: at the moment the server starts serving, before any request
  and any append, the file exists and holds the header.
\<close>

theorem log_file_exists_before_first_append:
  "is_serving (run_server demo_env (Some ''/tmp'') None (boot Map.empty))
   \<and> files (startup_state (run_server demo_env (Some ''/tmp'') None (boot Map.empty))) demo_log
       = Some ''# PyREPL Session Log: 2026-11-03 20:32:00.000000\<newline># CWD: /tmp\<newline>\<newline>''
   \<and> events (startup_state (run_server demo_env (Some ''/tmp'') None (boot Map.empty)))
       = [Print ''[blue]Logging enabled. Log file: /tmp/.pyrepl/Nov032026-203200.md'',
          File_append demo_log
            ''# PyREPL Session Log: 2026-11-03 20:32:00.000000\<newline># CWD: /tmp\<newline>\<newline>'',
          Print ''[blue]Initializing IPython & loading default extensions...'',
          Run_cell ''%load_ext autoreload'', Run_cell ''%autoreload 2'',
          Print ''[bold blue]Server running on http://localhost:5000'']"
  by code_simp

section \<open>The executable unit\<close>



section \<open>An uninitialized session\<close>

text \<open>
  Claim C10. While the session is uninitialized, every POST /execute is answered 500
  {"error": "IPython shell not initialized"} whatever its body is (the body is not looked
  at), and nothing else changes: busy flag, files and threads stay as they are.
\<close>

theorem execute_code_uninitialized:
  assumes "ipshell st = None"
  shows "execute_code E loaded st = st\<lparr>events := events st @ [Sent 500 (Some not_initialized)]\<rparr>"
  using assms by (simp add: execute_code_def send_json_response_def emit_def)

text \<open>
  A body that is not JSON, sent before the session exists.
\<close>

theorem execute_code_uninitialized_witness:
  "ipshell (boot Map.empty :: string list server) = None
   \<and> execute_code demo_env (Inl ''Expecting value: line 1 column 1 (char 0)'') (boot Map.empty)
       = (boot Map.empty)\<lparr>events := events (boot Map.empty :: string list server)
            @ [Sent 500 (Some not_initialized)]\<rparr>
   \<and> events (execute_code demo_env (Inl ''Expecting value: line 1 column 1 (char 0)'')
        (boot Map.empty))
       = [Sent 500 (Some (JObj [(''error'', JStr ''IPython shell not initialized'')]))]"
proof -
  have h: "ipshell (boot Map.empty :: string list server) = None" by (simp add: boot_def)
  from execute_code_uninitialized [OF h, of demo_env "Inl ''Expecting value: line 1 column 1 (char 0)''"] h
  show ?thesis by (simp add: boot_def not_initialized_def)
qed

end
